theory Spec2Isabelle
  imports Complex_Main "HOL-Library.Log_Nat"
begin

section \<open>JavaScript values\<close>

text \<open>
  The values that travel through the tracking code. An absent property and the value
  \<open>undefined\<close> are both \<open>None\<close> of \<open>jsval option\<close>; \<open>JDate v\<close> is the instant
  \<open>new Date(v)\<close> denotes, kept symbolic.
\<close>

datatype jsval =
    JNull
  | JBool bool
  | JNum int
  | JStr string
  | JDate jsval
  | JArr "jsval list"
  | JObj "(string \<times> jsval) list"

type_synonym jsobj = "string \<rightharpoonup> jsval"

fun truthy :: "jsval option \<Rightarrow> bool" where
  "truthy None = False"
| "truthy (Some JNull) = False"
| "truthy (Some (JBool b)) = b"
| "truthy (Some (JNum n)) = (n \<noteq> 0)"
| "truthy (Some (JStr s)) = (s \<noteq> [])"
| "truthy (Some (JDate d)) = True"
| "truthy (Some (JArr xs)) = True"
| "truthy (Some (JObj kvs)) = True"

text \<open>\<open>a || b\<close> on values.\<close>

definition js_or :: "jsval option \<Rightarrow> jsval option \<Rightarrow> jsval option" where
  "js_or a b = (if truthy a then a else b)"

text \<open>\<open>a || null\<close>, the end of the fallback chains of the routes.\<close>

definition or_null :: "jsval option \<Rightarrow> jsval option" where
  "or_null a = js_or a (Some JNull)"

definition str :: "string option \<Rightarrow> jsval option" where
  "str s = map_option JStr s"

definition num :: "int option \<Rightarrow> jsval option" where
  "num n = map_option JNum n"

text \<open>An object literal: a property whose value is \<open>undefined\<close> reads as absent.\<close>

definition obj :: "(string \<times> jsval option) list \<Rightarrow> jsobj" where
  "obj kvs k = (case map_of kvs k of Some (Some v) \<Rightarrow> Some v | Some None \<Rightarrow> None | None \<Rightarrow> None)"

subsection \<open>Number to string, for integers\<close>

definition digit_char :: "nat \<Rightarrow> char" where
  "digit_char d =
     (if d = 0 then CHR ''0'' else if d = 1 then CHR ''1'' else if d = 2 then CHR ''2''
      else if d = 3 then CHR ''3'' else if d = 4 then CHR ''4'' else if d = 5 then CHR ''5''
      else if d = 6 then CHR ''6'' else if d = 7 then CHR ''7'' else if d = 8 then CHR ''8''
      else CHR ''9'')"

function show_nat :: "nat \<Rightarrow> string" where
  "show_nat n = (if n < 10 then [digit_char n] else show_nat (n div 10) @ [digit_char (n mod 10)])"
  by pat_completeness auto
termination
  by (relation "measure (\<lambda>n. n)") auto

declare show_nat.simps [simp del]

definition show_int :: "int \<Rightarrow> string" where
  "show_int i = (if i < 0 then CHR ''-'' # show_nat (nat (- i)) else show_nat (nat i))"

subsection \<open>Splitting and joining strings\<close>

fun split_on :: "char \<Rightarrow> string \<Rightarrow> string list" where
  "split_on c [] = [[]]"
| "split_on c (x # xs) =
     (if x = c then [] # split_on c xs
      else (case split_on c xs of [] \<Rightarrow> [[x]] | w # ws \<Rightarrow> (x # w) # ws))"

fun join_with :: "string \<Rightarrow> string list \<Rightarrow> string" where
  "join_with sep [] = []"
| "join_with sep [w] = w"
| "join_with sep (w # v # ws) = w @ sep @ join_with sep (v # ws)"

definition is_digit :: "char \<Rightarrow> bool" where
  "is_digit c = (c \<in> set ''0123456789'')"

section \<open>Tracking module service\<close>

text \<open>
  One row of the \<open>shiprocket_tracking\<close> table: its primary key and its columns by name.
  A column that reads \<open>None\<close> holds no value.
\<close>

record tracking =
  row_id :: nat
  cols :: jsobj

type_synonym store = "tracking list"

text \<open>
  The three operations \<open>MedusaService\<close> generates for the model, as the service uses
  them: a filtered list with a \<open>take\<close> limit, an update by primary key that writes the
  properties present in the update object and leaves every other column, and a create that
  appends a row under a fresh key.
\<close>

definition listShiprocketTrackings :: "jsval option \<Rightarrow> nat \<Rightarrow> store \<Rightarrow> tracking list" where
  "listShiprocketTrackings awb n st = take n (filter (\<lambda>r. cols r ''awb'' = awb) st)"

definition updateShiprocketTrackings :: "nat \<Rightarrow> jsobj \<Rightarrow> store \<Rightarrow> tracking list \<times> store" where
  "updateShiprocketTrackings uid upd st =
     (let st' = map (\<lambda>r. if row_id r = uid then r\<lparr>cols := cols r ++ upd\<rparr> else r) st
      in (filter (\<lambda>r. row_id r = uid) st', st'))"

definition fresh_id :: "store \<Rightarrow> nat" where
  "fresh_id st = Suc (fold max (map row_id st) 0)"

definition createShiprocketTrackings :: "jsobj \<Rightarrow> store \<Rightarrow> tracking \<times> store" where
  "createShiprocketTrackings data st =
     (let r = \<lparr>row_id = fresh_id st, cols = data\<rparr> in (r, st @ [r]))"

text \<open>The keys of \<open>updateData\<close> besides \<open>id\<close> (service, lines 46-60).\<close>

definition mutable_fields :: "string list" where
  "mutable_fields =
     [''current_status'', ''current_status_id'', ''shipment_status'', ''shipment_status_id'',
      ''current_timestamp'', ''etd'', ''awb_assigned_date'', ''pickup_scheduled_date'',
      ''scans'', ''pod_status'', ''pod'', ''raw_payload'']"

text \<open>
  \<open>updateData\<close> after the \<open>forEach\<close> that deletes every key whose value is
  \<open>undefined\<close>: the mutable fields the caller supplied.
\<close>

definition updateData :: "jsobj \<Rightarrow> jsobj" where
  "updateData data = (\<lambda>k. if k \<in> set mutable_fields then data k else None)"

text \<open>\<open>upsertByAwb\<close>: the returned row (\<open>None\<close> for \<open>undefined\<close>) and the new table.\<close>

definition upsertByAwb :: "jsobj \<Rightarrow> store \<Rightarrow> tracking option \<times> store" where
  "upsertByAwb data st =
     (case listShiprocketTrackings (data ''awb'') 1 st of
        existing # _ \<Rightarrow>
          (case updateShiprocketTrackings (row_id existing) (updateData data) st of
             (updated, st') \<Rightarrow> (case updated of [] \<Rightarrow> (None, st') | u # _ \<Rightarrow> (Some u, st')))
      | [] \<Rightarrow>
          (case createShiprocketTrackings data st of (r, st') \<Rightarrow> (Some r, st')))"

definition findByAwb :: "string \<Rightarrow> store \<Rightarrow> tracking option" where
  "findByAwb awb st =
     (case listShiprocketTrackings (Some (JStr awb)) 1 st of [] \<Rightarrow> None | r # _ \<Rightarrow> Some r)"

text \<open>What the caller reads from the row \<open>upsertByAwb\<close> returned.\<close>

fun col_of :: "tracking option \<Rightarrow> string \<Rightarrow> jsval option" where
  "col_of None k = None"
| "col_of (Some r) k = cols r k"

subsection \<open>Sample rows and updates\<close>

definition row_A :: tracking where
  "row_A = \<lparr>row_id = 1, cols = obj
     [(''awb'', Some (JStr ''AWB1'')),
      (''courier_name'', Some (JStr ''Courier A'')),
      (''current_status'', Some (JStr ''Shipped'')),
      (''scans'', Some (JArr [JStr ''A'']))]\<rparr>"

definition status_only :: jsobj where
  "status_only = obj
     [(''awb'', Some (JStr ''AWB1'')), (''current_status'', Some (JStr ''Delivered''))]"

definition courier_update :: jsobj where
  "courier_update = obj
     [(''awb'', Some (JStr ''AWB1'')),
      (''courier_name'', Some (JStr ''Courier B'')),
      (''current_status'', Some (JStr ''Delivered''))]"

section \<open>Status normalisation and the two tracking routes\<close>

subsection \<open>Pull: the admin tracking sync route\<close>

record shipment_track =
  st_courier_name :: "string option"
  st_edd :: "string option"
  st_pod :: "string option"
  st_pod_status :: "string option"
  st_origin :: "string option"
  st_destination :: "string option"
  st_weight :: "string option"

text \<open>
  \<open>tracking_data\<close> of the carrier's tracking response. The three status fields are kept
  as raw values, since the carrier sends numbers as well as labels in them; the other
  fields have the types the response type declares.
\<close>

record tracking_data =
  td_current_status :: "jsval option"
  td_track_status :: "jsval option"
  td_shipment_status :: "jsval option"
  td_courier_name :: "string option"
  td_current_status_id :: "int option"
  td_shipment_status_id :: "int option"
  td_current_timestamp :: "string option"
  td_etd :: "string option"
  td_awb_assigned_date :: "string option"
  td_pickup_scheduled_date :: "string option"
  td_shipment_track :: "shipment_track list option"
  td_shipment_track_activities :: "jsval list option"
  td_scans :: "jsval list option"
  td_pod_status :: "string option"
  td_pod :: "string option"
  td_is_return :: "bool option"

record tracking_response =
  tr_tracking_data :: "tracking_data option"
  tr_raw :: jsval

text \<open>The \<open>statusMap\<close> object of the route; its keys are property names, so strings.\<close>

definition statusMap :: "(string \<times> string) list" where
  "statusMap =
     [(''1'', ''AWB Assigned''),
      (''6'', ''Shipped''),
      (''7'', ''Delivered''),
      (''8'', ''Cancelled''),
      (''9'', ''RTO Initiated''),
      (''13'', ''Pickup Error''),
      (''17'', ''In Transit''),
      (''18'', ''In Transit''),
      (''19'', ''RTO In Transit''),
      (''20'', ''RTO In Transit''),
      (''21'', ''Reached Destination'')]"

text \<open>
  The property name a value indexes \<open>statusMap\<close> with. The status fields of the
  carrier's answers hold numbers and strings. Outside the model: an array or an object in
  a status field, whose name is its text, and a text that names a property every object
  inherits (\<open>constructor\<close>, \<open>toString\<close>, ...), under which the lookup finds
  a function.
\<close>

fun property_key :: "jsval \<Rightarrow> string option" where
  "property_key (JNum n) = Some (show_int n)"
| "property_key (JStr s) = Some s"
| "property_key (JBool b) = Some (if b then ''true'' else ''false'')"
| "property_key JNull = Some ''null''"
| "property_key (JDate d) = None"
| "property_key (JArr xs) = None"
| "property_key (JObj kvs) = None"

text \<open>\<open>statusMap[v]\<close>\<close>

definition statusMap_at :: "jsval option \<Rightarrow> string option" where
  "statusMap_at v =
     (case v of
        None \<Rightarrow> None
      | Some x \<Rightarrow> (case property_key x of None \<Rightarrow> None | Some k \<Rightarrow> map_of statusMap k))"

text \<open>
  \<open>typeof v === "number"\<close>, then \<open>String(v)\<close>. The numbers are integers below
  \<open>10^21\<close> in magnitude, which \<open>String\<close> writes in decimal.
\<close>

fun number_to_string :: "jsval option \<Rightarrow> jsval option" where
  "number_to_string (Some (JNum n)) = Some (JStr (show_int n))"
| "number_to_string v = v"

text \<open>Lines 78-82 of the route, on \<open>status\<close>.\<close>

definition normalize_status :: "jsval option \<Rightarrow> jsval option" where
  "normalize_status status =
     (case statusMap_at status of
        Some label \<Rightarrow> (if label \<noteq> [] then Some (JStr label) else number_to_string status)
      | None \<Rightarrow> number_to_string status)"

text \<open>Lines 84-88 of the route, on \<open>shipmentStatus\<close>.\<close>

definition normalize_shipment_status :: "jsval option \<Rightarrow> jsval option" where
  "normalize_shipment_status shipmentStatus =
     (if truthy shipmentStatus \<and> truthy (str (statusMap_at shipmentStatus))
      then str (statusMap_at shipmentStatus)
      else number_to_string shipmentStatus)"

text \<open>\<open>x ? new Date(x) : other\<close>\<close>

definition date_or :: "string option \<Rightarrow> jsval option \<Rightarrow> jsval option" where
  "date_or x other = (if truthy (str x) then map_option JDate (str x) else other)"

text \<open>\<open>trackInfo?.f\<close>\<close>

definition opt_field :: "'a option \<Rightarrow> ('a \<Rightarrow> 'b option) \<Rightarrow> 'b option" where
  "opt_field r f = (case r of None \<Rightarrow> None | Some x \<Rightarrow> f x)"

text \<open>The argument of \<open>upsertByAwb\<close> in the sync route (lines 58-113).\<close>

definition sync_upsert_data :: "string \<Rightarrow> tracking_data \<Rightarrow> jsval \<Rightarrow> jsval \<Rightarrow> jsobj" where
  "sync_upsert_data awb td raw now =
     (let status = normalize_status
            (js_or (td_current_status td) (js_or (td_track_status td) (Some (JStr ''Unknown''))));
          shipmentStatus = normalize_shipment_status (or_null (td_shipment_status td));
          trackInfo = (case td_shipment_track td of Some (t # _) \<Rightarrow> Some t | _ \<Rightarrow> None);
          scans = (case td_shipment_track_activities td of
                     Some a \<Rightarrow> a
                   | None \<Rightarrow> (case td_scans td of Some s \<Rightarrow> s | None \<Rightarrow> []))
      in obj
        [(''awb'', Some (JStr awb)),
         (''courier_name'',
            or_null (js_or (str (opt_field trackInfo st_courier_name)) (str (td_courier_name td)))),
         (''current_status'', status),
         (''current_status_id'', js_or (num (td_current_status_id td)) (Some (JNum 0))),
         (''shipment_status'', shipmentStatus),
         (''shipment_status_id'', js_or (num (td_shipment_status_id td)) (Some (JNum 0))),
         (''current_timestamp'', date_or (td_current_timestamp td) (Some now)),
         (''etd'', date_or (td_etd td) (date_or (opt_field trackInfo st_edd) (Some JNull))),
         (''awb_assigned_date'', date_or (td_awb_assigned_date td) (Some JNull)),
         (''pickup_scheduled_date'', date_or (td_pickup_scheduled_date td) (Some JNull)),
         (''scans'', Some (JArr scans)),
         (''pod_status'',
            or_null (js_or (str (td_pod_status td)) (str (opt_field trackInfo st_pod_status)))),
         (''pod'', or_null (js_or (str (td_pod td)) (str (opt_field trackInfo st_pod)))),
         (''is_return'', js_or (map_option JBool (td_is_return td)) (Some (JBool False))),
         (''origin'', or_null (str (opt_field trackInfo st_origin))),
         (''destination'', or_null (str (opt_field trackInfo st_destination))),
         (''weight'', or_null (str (opt_field trackInfo st_weight))),
         (''raw_payload'', Some raw)])"

text \<open>
  The sync route from the carrier's answer on: the HTTP status, the stored row and the
  table. The document regeneration that follows the upsert does not touch the table and is
  left out.
\<close>

definition POST_sync ::
  "string \<Rightarrow> tracking_response option \<Rightarrow> jsval \<Rightarrow> store \<Rightarrow> nat \<times> tracking option \<times> store" where
  "POST_sync awb trackingResponse now st =
     (if awb = [] then (400, None, st)
      else (case opt_field trackingResponse tr_tracking_data of
              None \<Rightarrow> (404, None, st)
            | Some trackingData \<Rightarrow>
                (case upsertByAwb
                        (sync_upsert_data awb trackingData
                           (case trackingResponse of Some r \<Rightarrow> tr_raw r | None \<Rightarrow> JNull) now) st of
                   (tracking, st') \<Rightarrow> (200, tracking, st'))))"

subsection \<open>Push: the webhook route\<close>

record webhook_payload =
  wp_awb :: "string option"
  wp_courier_name :: "string option"
  wp_current_status :: "jsval option"
  wp_current_status_id :: "int option"
  wp_shipment_status :: "jsval option"
  wp_shipment_status_id :: "int option"
  wp_current_timestamp :: "string option"
  wp_order_id :: "string option"
  wp_sr_order_id :: "int option"
  wp_awb_assigned_date :: "string option"
  wp_pickup_scheduled_date :: "string option"
  wp_etd :: "string option"
  wp_scans :: "jsval list option"
  wp_is_return :: "int option"
  wp_channel_id :: "int option"
  wp_pod_status :: "string option"
  wp_pod :: "string option"
  wp_raw :: jsval

text \<open>\<open>/^\d{2} \d{2} \d{4}/\<close>\<close>

fun ddmmyyyy :: "string \<Rightarrow> bool" where
  "ddmmyyyy (a # b # c # d # e # f # g # h # i # j # rest) =
     (is_digit a \<and> is_digit b \<and> c = CHR '' '' \<and> is_digit d \<and> is_digit e \<and> f = CHR '' ''
      \<and> is_digit g \<and> is_digit h \<and> is_digit i \<and> is_digit j)"
| "ddmmyyyy s = False"

definition nth_opt :: "'a list \<Rightarrow> nat \<Rightarrow> 'a option" where
  "nth_opt xs n = (if n < length xs then Some (xs ! n) else None)"

definition parseDate :: "string option \<Rightarrow> jsval option" where
  "parseDate dateStr =
     (case dateStr of
        None \<Rightarrow> None
      | Some s \<Rightarrow>
          if s = [] then None
          else if ddmmyyyy s then
            (let parts = split_on (CHR '' '') s;
                 d = (case nth_opt parts 0 of Some x \<Rightarrow> x | None \<Rightarrow> ''undefined'');
                 m = (case nth_opt parts 1 of Some x \<Rightarrow> x | None \<Rightarrow> ''undefined'');
                 y = (case nth_opt parts 2 of Some x \<Rightarrow> x | None \<Rightarrow> ''undefined'');
                 time = (case nth_opt parts 3 of
                           Some x \<Rightarrow> (if x = [] then ''00:00:00'' else x)
                         | None \<Rightarrow> ''00:00:00'')
             in Some (JDate (JStr (y @ ''-'' @ m @ ''-'' @ d @ ''T'' @ time))))
          else Some (JDate (JStr s)))"

text \<open>The host order id: a trailing \<open>-<digits>\<close> of the carrier's order id is dropped.\<close>

definition medusaOrderId :: "string option \<Rightarrow> string option" where
  "medusaOrderId order_id =
     (case order_id of
        None \<Rightarrow> None
      | Some s \<Rightarrow>
          if s \<noteq> [] \<and> CHR ''-'' \<in> set s then
            (let parts = split_on (CHR ''-'') s; lastPart = last parts
             in if lastPart \<noteq> [] \<and> list_all is_digit lastPart
                then Some (join_with ''-'' (butlast parts))
                else Some s)
          else Some s)"

text \<open>\<open>x ? Number(x) : undefined\<close>\<close>

definition number_if :: "int option \<Rightarrow> jsval option" where
  "number_if x = (if truthy (num x) then num x else None)"

text \<open>The argument of \<open>upsertByAwb\<close> in the webhook route (lines 127-147).\<close>

definition hook_upsert_data :: "webhook_payload \<Rightarrow> jsobj" where
  "hook_upsert_data payload = obj
     [(''awb'', str (wp_awb payload)),
      (''order_id'', str (wp_order_id payload)),
      (''medusa_order_id'', str (medusaOrderId (wp_order_id payload))),
      (''sr_order_id'', number_if (wp_sr_order_id payload)),
      (''courier_name'', str (wp_courier_name payload)),
      (''current_status'', wp_current_status payload),
      (''current_status_id'', number_if (wp_current_status_id payload)),
      (''shipment_status'', wp_shipment_status payload),
      (''shipment_status_id'', number_if (wp_shipment_status_id payload)),
      (''current_timestamp'', parseDate (wp_current_timestamp payload)),
      (''etd'', parseDate (wp_etd payload)),
      (''awb_assigned_date'', parseDate (wp_awb_assigned_date payload)),
      (''pickup_scheduled_date'', parseDate (wp_pickup_scheduled_date payload)),
      (''scans'', Some (JArr (case wp_scans payload of Some s \<Rightarrow> s | None \<Rightarrow> []))),
      (''pod_status'', str (wp_pod_status payload)),
      (''pod'', str (wp_pod payload)),
      (''is_return'', Some (JBool (wp_is_return payload = Some 1))),
      (''channel_id'', number_if (wp_channel_id payload)),
      (''raw_payload'', Some (wp_raw payload))]"

text \<open>
  \<open>constantTimeCompare\<close>. A string is its characters below U+0100, one UTF-16 unit
  each; in UTF-8 a character from U+0080 on takes two bytes. \<open>timingSafeEqual\<close> throws
  on buffers of different byte length, which is \<open>None\<close>; on buffers of the same length
  it says whether the bytes, and so the strings, are the same.
\<close>

definition utf8_length :: "string \<Rightarrow> nat" where
  "utf8_length s = length s + length (filter (\<lambda>c. 128 \<le> (of_char c :: nat)) s)"

definition constantTimeCompare :: "string \<Rightarrow> string \<Rightarrow> bool option" where
  "constantTimeCompare a b =
     (if length a \<noteq> length b then Some False
      else if utf8_length a \<noteq> utf8_length b then None
      else Some (a = b))"

text \<open>
  The webhook route: token check, payload check, upsert; an exception on the way is
  answered with status 500. The event it emits afterwards is best effort and does not
  touch the table.
\<close>

definition POST_hook ::
  "string option \<Rightarrow> string option \<Rightarrow> webhook_payload option \<Rightarrow> store
     \<Rightarrow> nat \<times> tracking option \<times> store" where
  "POST_hook token expectedToken body st =
     (case expectedToken of
        None \<Rightarrow> (500, None, st)
      | Some expected \<Rightarrow>
          if expected = [] then (500, None, st)
          else (case token of
                  None \<Rightarrow> (401, None, st)
                | Some t \<Rightarrow>
                    if t = [] then (401, None, st)
                    else (case constantTimeCompare t expected of
                            None \<Rightarrow> (500, None, st)
                          | Some same \<Rightarrow>
                              if \<not> same then (401, None, st)
                              else (case body of
                                      None \<Rightarrow> (400, None, st)
                                    | Some payload \<Rightarrow>
                                        if \<not> truthy (str (wp_awb payload))
                                        then (400, None, st)
                                        else (case upsertByAwb (hook_upsert_data payload) st of
                                                (tracking, st') \<Rightarrow> (200, tracking, st'))))))"

subsection \<open>A delivered shipment, as either route receives it\<close>

definition delivered_pull :: tracking_response where
  "delivered_pull =
     \<lparr>tr_tracking_data = Some
        \<lparr>td_current_status = Some (JNum 7), td_track_status = Some (JNum 1),
         td_shipment_status = Some (JNum 7), td_courier_name = Some ''Courier A'',
         td_current_status_id = Some 7, td_shipment_status_id = Some 7,
         td_current_timestamp = None, td_etd = None, td_awb_assigned_date = None,
         td_pickup_scheduled_date = None, td_shipment_track = None,
         td_shipment_track_activities = None, td_scans = None, td_pod_status = None,
         td_pod = None, td_is_return = None\<rparr>,
      tr_raw = JObj []\<rparr>"

definition delivered_push :: webhook_payload where
  "delivered_push =
     \<lparr>wp_awb = Some ''AWB1'', wp_courier_name = Some ''Courier A'',
      wp_current_status = Some (JNum 7), wp_current_status_id = Some 7,
      wp_shipment_status = Some (JNum 7), wp_shipment_status_id = Some 7,
      wp_current_timestamp = Some ''05 01 2026 10:30:00'', wp_order_id = Some ''order_01-1767600000'',
      wp_sr_order_id = Some 12, wp_awb_assigned_date = None, wp_pickup_scheduled_date = None,
      wp_etd = None, wp_scans = None, wp_is_return = Some 0, wp_channel_id = None,
      wp_pod_status = None, wp_pod = None, wp_raw = JObj []\<rparr>"

definition delivered_push_text :: webhook_payload where
  "delivered_push_text =
     delivered_push\<lparr>wp_current_status := Some (JStr ''7''), wp_shipment_status := Some (JStr ''7'')\<rparr>"

text \<open>The code-to-label table as the specification lists it.\<close>

definition spec_status_table :: "(int \<times> string) list" where
  "spec_status_table =
     [(1, ''AWB Assigned''), (6, ''Shipped''), (7, ''Delivered''), (8, ''Cancelled''),
      (9, ''RTO Initiated''), (13, ''Pickup Error''), (17, ''In Transit''), (18, ''In Transit''),
      (19, ''RTO In Transit''), (20, ''RTO In Transit''), (21, ''Reached Destination'')]"

section \<open>Errors\<close>

datatype medusa_type = INVALID_DATA | NOT_FOUND | NOT_ALLOWED | UNAUTHORIZED | UNEXPECTED_STATE

text \<open>
  What the code reads of an error thrown by an HTTP call: \<open>error.response?.status\<close>,
  \<open>response.data.message\<close>, \<open>response.data.errors\<close> (field name and messages;
  a field with one bare message is the one-element list), \<open>JSON.stringify(response.data)\<close>
  (\<open>None\<close> when the error has no response data), \<open>error.message\<close> and
  \<open>error.code\<close>.
\<close>

record axios_error =
  ae_status :: "nat option"
  ae_data_message :: "string option"
  ae_data_errors :: "(string \<times> string list) list option"
  ae_data_json :: "string option"
  ae_message :: "string option"
  ae_code :: "string option"

datatype exn =
    MedusaError medusa_type string
  | AxiosError axios_error
  | TypeError string

section \<open>Client manager\<close>

subsection \<open>Reading digits\<close>

fun index_of :: "char \<Rightarrow> string \<Rightarrow> nat \<Rightarrow> nat option" where
  "index_of c [] n = None"
| "index_of c (x # xs) n = (if c = x then Some n else index_of c xs (Suc n))"

definition dec_digit :: "char \<Rightarrow> nat option" where
  "dec_digit c = index_of c ''0123456789'' 0"

definition hex_digit :: "char \<Rightarrow> nat option" where
  "hex_digit c =
     (case index_of c ''0123456789abcdef'' 0 of
        Some d \<Rightarrow> Some d
      | None \<Rightarrow> index_of c ''ABCDEF'' 10)"

text \<open>The value of the longest prefix of digits; \<open>None\<close> when there is no digit.\<close>

fun parse_digits :: "(char \<Rightarrow> nat option) \<Rightarrow> nat \<Rightarrow> string \<Rightarrow> nat option \<Rightarrow> nat option" where
  "parse_digits dv radix [] acc = acc"
| "parse_digits dv radix (c # cs) acc =
     (case dv c of
        None \<Rightarrow> acc
      | Some d \<Rightarrow>
          parse_digits dv radix cs (Some (radix * (case acc of None \<Rightarrow> 0 | Some a \<Rightarrow> a) + d)))"

subsection \<open>Array.prototype.sort with a comparator\<close>

text \<open>
  The sort is stable: \<open>a\<close> goes before \<open>b\<close> when the comparator is negative, after it
  when positive, and the two keep their order when it is zero. Insertion from the right
  computes that order.
\<close>

fun insort_cmp :: "('a \<Rightarrow> 'a \<Rightarrow> rat) \<Rightarrow> 'a \<Rightarrow> 'a list \<Rightarrow> 'a list" where
  "insort_cmp cmp x [] = [x]"
| "insort_cmp cmp x (y # ys) = (if cmp x y \<le> 0 then x # y # ys else y # insort_cmp cmp x ys)"

definition js_sort :: "('a \<Rightarrow> 'a \<Rightarrow> rat) \<Rightarrow> 'a list \<Rightarrow> 'a list" where
  "js_sort cmp xs = foldr (insort_cmp cmp) xs []"

subsection \<open>Delivery estimate\<close>

text \<open>
  A serviceable courier of the carrier's answer. \<open>c_rate\<close> is the number the \<open>rate\<close>
  field denotes.
\<close>

record courier =
  c_courier_name :: string
  c_courier_company_id :: int
  c_rate :: rat
  c_estimated_delivery_days :: string
  c_etd :: "string option"
  c_is_surface :: bool

record estimate =
  serviceable :: bool
  preference :: string
  courier_name :: "string option"
  courier_company_id :: "int option"
  etd :: "string option"
  estimated_delivery_days :: "rat option"
  rate :: "rat option"
  is_surface :: "bool option"
  courier_count :: nat

record cached_token =
  token :: string
  token_expiresAt :: int

record cached_estimate =
  response :: estimate
  expiresAt :: int

text \<open>
  The manager's mutable fields. The cache is a \<open>Map\<close>: its entries in insertion order,
  one per key.
\<close>

record manager =
  cachedToken :: "cached_token option"
  deliveryEstimateCache :: "(string \<times> cached_estimate) list"

definition maxCacheSize :: nat where
  "maxCacheSize = 1000"

definition TOKEN_REFRESH_BUFFER_DAYS :: int where
  "TOKEN_REFRESH_BUFFER_DAYS = 8"

definition DELIVERY_ESTIMATE_CACHE_HOURS :: int where
  "DELIVERY_ESTIMATE_CACHE_HOURS = 4"

text \<open>
  The manager's configuration and its surroundings during one call: the delivery
  preference, the text of a number in a template string, JavaScript's \<open>parseInt\<close>
  (the number it returns, \<open>None\<close> for \<open>NaN\<close>), and what the carrier answers to
  the login, to the serviceability request, and to that request when the client repeats
  it. Numbers are finite: a double is written as the rational it is.
\<close>

record env =
  deliveryPreference :: string
  num_str :: "rat \<Rightarrow> string"
  parseInt :: "string \<Rightarrow> rat option"
  login :: "axios_error + string option"
  serviceability :: "string \<Rightarrow> string \<Rightarrow> rat \<Rightarrow> rat \<Rightarrow> exn + courier list"
  serviceability_retry :: "string \<Rightarrow> string \<Rightarrow> rat \<Rightarrow> rat \<Rightarrow> exn + courier list"

text \<open>\<open>parseInt(c.estimated_delivery_days) || 99\<close>\<close>

definition days_or_99 :: "env \<Rightarrow> courier \<Rightarrow> rat" where
  "days_or_99 e c =
     (case parseInt e (c_estimated_delivery_days c) of
        None \<Rightarrow> 99
      | Some n \<Rightarrow> if n = 0 then 99 else n)"

text \<open>
  Lines 387-395: the first element of the sorted copy. The comparators subtract doubles;
  the sort reads the sign of the difference, which rounding to a double does not change.
\<close>

definition selectCourier :: "env \<Rightarrow> courier list \<Rightarrow> courier option" where
  "selectCourier e couriers =
     (case (if deliveryPreference e = ''CHEAP''
            then js_sort (\<lambda>a b. c_rate a - c_rate b) couriers
            else js_sort (\<lambda>a b. days_or_99 e a - days_or_99 e b) couriers) of
        [] \<Rightarrow> None
      | c # rest \<Rightarrow> Some c)"

datatype call =
    Login
  | Serviceability string string rat rat

definition isTokenValid :: "int \<Rightarrow> manager \<Rightarrow> bool" where
  "isTokenValid now m =
     (case cachedToken m of None \<Rightarrow> False | Some t \<Rightarrow> now < token_expiresAt t - 60000)"

text \<open>\<open>doRefreshToken\<close>: the login call, then the new token or the typed failure.\<close>

definition doRefreshToken :: "env \<Rightarrow> int \<Rightarrow> manager \<Rightarrow> (exn + unit) \<times> manager \<times> call list" where
  "doRefreshToken e now m =
     (case login e of
        Inr (Some t) \<Rightarrow>
          if t \<noteq> [] then
            (Inr (),
             m\<lparr>cachedToken := Some \<lparr>token = t,
                  token_expiresAt = now + TOKEN_REFRESH_BUFFER_DAYS * 24 * 60 * 60 * 1000\<rparr>\<rparr>,
             [Login])
          else (Inl (MedusaError INVALID_DATA
                  ''Shiprocket authentication failed: no token received''), m, [Login])
      | Inr None \<Rightarrow>
          (Inl (MedusaError INVALID_DATA
                  ''Shiprocket authentication failed: no token received''), m, [Login])
      | Inl err \<Rightarrow>
          (Inl (MedusaError INVALID_DATA
                  (case ae_data_message err of
                     Some msg \<Rightarrow> if msg \<noteq> [] then msg else ''Shiprocket authentication failed''
                   | None \<Rightarrow> ''Shiprocket authentication failed'')), m, [Login]))"

text \<open>\<open>ensureToken\<close> of a caller that finds no refresh in flight.\<close>

definition ensureToken :: "env \<Rightarrow> int \<Rightarrow> manager \<Rightarrow> (exn + unit) \<times> manager \<times> call list" where
  "ensureToken e now m = (if isTokenValid now m then (Inr (), m, []) else doRefreshToken e now m)"

record estimate_request =
  pickup_postcode :: string
  delivery_postcode :: string
  weight :: "rat option"
  cod :: "rat option"

text \<open>\<open>x || d\<close> on an optional number.\<close>

definition num_or :: "rat option \<Rightarrow> rat \<Rightarrow> rat" where
  "num_or x d = (case x of None \<Rightarrow> d | Some v \<Rightarrow> if v = 0 then d else v)"

definition cacheKey :: "env \<Rightarrow> estimate_request \<Rightarrow> string" where
  "cacheKey e data =
     pickup_postcode data @ ''-'' @ delivery_postcode data @ ''-''
       @ num_str e (num_or (weight data) (1 / 2)) @ ''-'' @ num_str e (num_or (cod data) 0)"

text \<open>Lines 341-346: with the cache full, the first key of the map is deleted.\<close>

definition evict :: "(string \<times> cached_estimate) list \<Rightarrow> (string \<times> cached_estimate) list" where
  "evict c =
     (if length c \<ge> maxCacheSize
      then (case c of [] \<Rightarrow> c | (firstKey, v) # rest \<Rightarrow> if firstKey \<noteq> [] then rest else c)
      else c)"

text \<open>\<open>Map.set\<close>: a present key keeps its place, a new key goes last.\<close>

fun map_set :: "string \<Rightarrow> 'v \<Rightarrow> (string \<times> 'v) list \<Rightarrow> (string \<times> 'v) list" where
  "map_set k v [] = [(k, v)]"
| "map_set k v ((k', v') # rest) = (if k' = k then (k, v) # rest else (k', v') # map_set k v rest)"

definition not_serviceable :: "string \<Rightarrow> estimate" where
  "not_serviceable pref =
     \<lparr>serviceable = False, preference = pref, courier_name = None, courier_company_id = None,
      etd = None, estimated_delivery_days = None, rate = None, is_surface = None,
      courier_count = 0\<rparr>"

definition estimate_of :: "env \<Rightarrow> courier \<Rightarrow> nat \<Rightarrow> estimate" where
  "estimate_of e c n =
     \<lparr>serviceable = True, preference = deliveryPreference e,
      courier_name = Some (c_courier_name c),
      courier_company_id = Some (c_courier_company_id c),
      etd = c_etd c,
      estimated_delivery_days =
        (case parseInt e (c_estimated_delivery_days c) of
           None \<Rightarrow> None
         | Some d \<Rightarrow> if d = 0 then None else Some d),
      rate = Some (c_rate c),
      is_surface = Some (c_is_surface c),
      courier_count = n\<rparr>"

text \<open>Lines 349-350: the entry under the key, when there is one and it has not expired.\<close>

definition fresh_entry ::
  "int \<Rightarrow> (string \<times> cached_estimate) list \<Rightarrow> string \<Rightarrow> cached_estimate option" where
  "fresh_entry now cache key =
     (case map_of cache key of
        None \<Rightarrow> None
      | Some cached \<Rightarrow> if now < expiresAt cached then Some cached else None)"

text \<open>
  \<open>GET /courier/serviceability/\<close> on the shared client, with the client's response
  interceptor (lines 125-144): a 401 answer makes the client refresh the token, with no
  other refresh in flight, and repeat the request once; a failed refresh is the request's
  error.
\<close>

definition get_serviceability ::
  "env \<Rightarrow> int \<Rightarrow> string \<Rightarrow> string \<Rightarrow> rat \<Rightarrow> rat \<Rightarrow> manager
     \<Rightarrow> (exn + courier list) \<times> manager \<times> call list" where
  "get_serviceability e now p d w c m =
     (case serviceability e p d w c of
        Inl (AxiosError err) \<Rightarrow>
          if ae_status err = Some 401
          then (case doRefreshToken e now m of
                  (Inl refreshError, m', calls) \<Rightarrow>
                    (Inl refreshError, m', Serviceability p d w c # calls)
                | (Inr u, m', calls) \<Rightarrow>
                    (serviceability_retry e p d w c, m',
                     Serviceability p d w c # calls @ [Serviceability p d w c]))
          else (Inl (AxiosError err), m, [Serviceability p d w c])
      | answer \<Rightarrow> (answer, m, [Serviceability p d w c]))"

text \<open>
  \<open>getDeliveryEstimate\<close>: the result or the error thrown, the manager afterwards, and the
  calls made on the shared HTTP client, in order. \<open>now\<close> is \<open>Date.now()\<close>.
\<close>

definition getDeliveryEstimate ::
  "env \<Rightarrow> int \<Rightarrow> estimate_request \<Rightarrow> manager \<Rightarrow> (exn + estimate) \<times> manager \<times> call list" where
  "getDeliveryEstimate e now data m0 =
     (case ensureToken e now m0 of
        (Inl err, m1, calls) \<Rightarrow> (Inl err, m1, calls)
      | (Inr u, m1, calls) \<Rightarrow>
          (let w = num_or (weight data) (1 / 2);
               c = num_or (cod data) 0;
               key = cacheKey e data;
               m = m1\<lparr>deliveryEstimateCache := evict (deliveryEstimateCache m1)\<rparr>;
               fresh = now + DELIVERY_ESTIMATE_CACHE_HOURS * 60 * 60 * 1000
           in case fresh_entry now (deliveryEstimateCache m) key of
                Some cached \<Rightarrow> (Inr (response cached), m, calls)
              | None \<Rightarrow>
                 (case get_serviceability e now (pickup_postcode data) (delivery_postcode data)
                         w c m of
                    (Inl (MedusaError t msg), m2, requests) \<Rightarrow>
                      (Inl (MedusaError t msg), m2, calls @ requests)
                  | (Inl (AxiosError err), m2, requests) \<Rightarrow>
                      (Inl (MedusaError INVALID_DATA
                         (case ae_data_message err of
                            Some msg \<Rightarrow> if msg \<noteq> [] then msg else ''Failed to get delivery estimate''
                          | None \<Rightarrow> ''Failed to get delivery estimate'')), m2, calls @ requests)
                  | (Inl (TypeError msg), m2, requests) \<Rightarrow>
                      (Inl (MedusaError INVALID_DATA ''Failed to get delivery estimate''),
                       m2, calls @ requests)
                  | (Inr couriers, m2, requests) \<Rightarrow>
                      (case selectCourier e couriers of
                         None \<Rightarrow>
                           (Inr (not_serviceable (deliveryPreference e)),
                            m2\<lparr>deliveryEstimateCache :=
                                 map_set key \<lparr>response = not_serviceable (deliveryPreference e),
                                              expiresAt = fresh\<rparr> (deliveryEstimateCache m2)\<rparr>,
                            calls @ requests)
                       | Some sel \<Rightarrow>
                           (Inr (estimate_of e sel (length couriers)),
                            m2\<lparr>deliveryEstimateCache :=
                                 map_set key
                                   \<lparr>response = estimate_of e sel (length couriers),
                                    expiresAt = fresh\<rparr> (deliveryEstimateCache m2)\<rparr>,
                            calls @ requests)))))"

definition getPreferredCourier ::
  "env \<Rightarrow> int \<Rightarrow> estimate_request \<Rightarrow> manager \<Rightarrow> (exn + int option) \<times> manager \<times> call list" where
  "getPreferredCourier e now data m =
     (case getDeliveryEstimate e now data m of
        (Inl err, m', calls) \<Rightarrow> (Inl err, m', calls)
      | (Inr est, m', calls) \<Rightarrow> (Inr (courier_company_id est), m', calls))"

subsection \<open>The vocabulary of the specification\<close>


subsection \<open>A parser for the sample texts\<close>

text \<open>
  \<open>parseInt(s)\<close> without a radix, for texts of ASCII characters with at most fifteen
  digits, where it is exact: leading white space, a sign, a hexadecimal prefix, then the
  longest run of digits; \<open>None\<close> is \<open>NaN\<close>. Only the sample surroundings use it.
\<close>

definition is_space :: "char \<Rightarrow> bool" where
  "is_space c = (c \<in> set [CHR '' '', CHR 0x09, CHR 0x0A, CHR 0x0B, CHR 0x0C, CHR 0x0D])"

fun strip_sign :: "string \<Rightarrow> bool \<times> string" where
  "strip_sign [] = (False, [])"
| "strip_sign (c # cs) =
     (if c = CHR ''-'' then (True, cs) else if c = CHR ''+'' then (False, cs) else (False, c # cs))"

fun parse_magnitude :: "string \<Rightarrow> nat option" where
  "parse_magnitude (a # b # cs) =
     (if a = CHR ''0'' \<and> (b = CHR ''x'' \<or> b = CHR ''X'')
      then parse_digits hex_digit 16 cs None
      else parse_digits dec_digit 10 (a # b # cs) None)"
| "parse_magnitude s = parse_digits dec_digit 10 s None"

definition ascii_parseInt :: "string \<Rightarrow> int option" where
  "ascii_parseInt s =
     (case strip_sign (dropWhile is_space s) of
        (neg, rest) \<Rightarrow>
          map_option (\<lambda>n. if neg then - int n else int n) (parse_magnitude rest))"


subsection \<open>Sample couriers\<close>

definition mk_courier :: "string \<Rightarrow> int \<Rightarrow> rat \<Rightarrow> string \<Rightarrow> courier" where
  "mk_courier name cid r days =
     \<lparr>c_courier_name = name, c_courier_company_id = cid, c_rate = r,
      c_estimated_delivery_days = days, c_etd = None, c_is_surface = False\<rparr>"

definition three_couriers :: "courier list" where
  "three_couriers =
     [mk_courier ''A'' 1 50 ''2'', mk_courier ''B'' 2 30 ''3'', mk_courier ''C'' 3 40 ''1'']"

definition slow_couriers :: "courier list" where
  "slow_couriers = [mk_courier ''A'' 1 50 ''N/A'', mk_courier ''B'' 2 30 ''120'']"

subsection \<open>A manager whose estimate cache is full\<close>

text \<open>
  The surroundings of the sample calls. Its \<open>num_str\<close> writes integers in decimal and
  one half as \<open>0.5\<close>, the numbers the sample calls format.
\<close>

definition sample_env :: env where
  "sample_env =
     \<lparr>deliveryPreference = ''FAST'',
      num_str = (\<lambda>r. if r = 1 / 2 then ''0.5'' else show_int \<lfloor>r\<rfloor>),
      parseInt = (\<lambda>s. map_option of_int (ascii_parseInt s)),
      login = Inr (Some ''token-1''),
      serviceability = (\<lambda>p d w c. Inr three_couriers),
      serviceability_retry = (\<lambda>p d w c. Inr three_couriers)\<rparr>"

definition sample_request :: estimate_request where
  "sample_request =
     \<lparr>pickup_postcode = ''110001'', delivery_postcode = ''560001'', weight = None, cod = None\<rparr>"

definition other_request :: "nat \<Rightarrow> estimate_request" where
  "other_request i =
     \<lparr>pickup_postcode = ''110002'', delivery_postcode = show_nat (400000 + i),
      weight = None, cod = None\<rparr>"

text \<open>An entry stored at time \<open>0\<close>: it expires four hours later.\<close>

definition sample_entry :: cached_estimate where
  "sample_entry =
     \<lparr>response = estimate_of sample_env (mk_courier ''C'' 3 40 ''1'') 3,
      expiresAt = DELIVERY_ESTIMATE_CACHE_HOURS * 60 * 60 * 1000\<rparr>"

text \<open>
  The cache after the sample request and 999 requests for other routes, all answered at
  time \<open>0\<close>: 1000 entries, the sample request's first.
\<close>

definition full_cache :: "(string \<times> cached_estimate) list" where
  "full_cache =
     (cacheKey sample_env sample_request, sample_entry)
       # map (\<lambda>i. (cacheKey sample_env (other_request i), sample_entry)) [0..<999]"

definition full_manager :: manager where
  "full_manager =
     \<lparr>cachedToken = Some \<lparr>token = ''token-1'',
          token_expiresAt = TOKEN_REFRESH_BUFFER_DAYS * 24 * 60 * 60 * 1000\<rparr>,
      deliveryEstimateCache = full_cache\<rparr>"

subsection \<open>Sample calls for the selection\<close>

definition cheap_env :: env where
  "cheap_env = sample_env\<lparr>deliveryPreference := ''CHEAP''\<rparr>"

text \<open>A carrier that answers with the two couriers of \<open>slow_couriers\<close>.\<close>

definition slow_env :: env where
  "slow_env = sample_env\<lparr>serviceability := (\<lambda>p d w c. Inr slow_couriers)\<rparr>"


section \<open>Text search\<close>

definition lower_table :: "(char \<times> char) list" where
  "lower_table = zip ''ABCDEFGHIJKLMNOPQRSTUVWXYZ'' ''abcdefghijklmnopqrstuvwxyz''"

text \<open>\<open>toLowerCase\<close> on the letters of ASCII; every other character stays.\<close>

definition to_lower :: "string \<Rightarrow> string" where
  "to_lower s = map (\<lambda>c. case map_of lower_table c of Some l \<Rightarrow> l | None \<Rightarrow> c) s"

fun starts_with :: "string \<Rightarrow> string \<Rightarrow> bool" where
  "starts_with hay [] = True"
| "starts_with [] (n # ns) = False"
| "starts_with (h # hs) (n # ns) = (h = n \<and> starts_with hs ns)"

text \<open>\<open>hay.includes(needle)\<close>\<close>

fun str_includes :: "string \<Rightarrow> string \<Rightarrow> bool" where
  "str_includes [] needle = (needle = [])"
| "str_includes (h # hs) needle = (if starts_with (h # hs) needle then True else str_includes hs needle)"

section \<open>Error translation\<close>

text \<open>What \<open>handleError\<close> reads when it is handed an error that is not an HTTP error.\<close>

definition plain_error :: "string \<Rightarrow> axios_error" where
  "plain_error msg =
     \<lparr>ae_status = None, ae_data_message = None, ae_data_errors = None, ae_data_json = None,
      ae_message = Some msg, ae_code = None\<rparr>"

fun as_axios :: "exn \<Rightarrow> axios_error" where
  "as_axios (AxiosError err) = err"
| "as_axios (MedusaError t msg) = plain_error msg"
| "as_axios (TypeError msg) = plain_error msg"

definition str_or :: "string option \<Rightarrow> string \<Rightarrow> string" where
  "str_or s d = (case s of None \<Rightarrow> d | Some v \<Rightarrow> if v = [] then d else v)"

text \<open>
  \<open>handleError\<close> never returns; the model gives the \<open>MedusaError\<close> it throws.
\<close>

definition handleError :: "exn \<Rightarrow> string option \<Rightarrow> exn" where
  "handleError error operation =
     (let axiosError = as_axios error;
          statusCode = (case ae_status axiosError of None \<Rightarrow> 0 | Some c \<Rightarrow> c);
          message0 = str_or (ae_data_message axiosError)
                       (str_or (ae_message axiosError) ''Unknown Shiprocket error'');
          contextStr = (case operation of
                          None \<Rightarrow> []
                        | Some op \<Rightarrow> if op = [] then [] else ''['' @ op @ '']'');
          message = (case ae_data_errors axiosError of
                       None \<Rightarrow> message0
                     | Some errors \<Rightarrow>
                         ''Validation failed: '' @
                           join_with ''; ''
                             (map (\<lambda>(field, msgs). field @ '': '' @ join_with '', '' msgs) errors))
      in if statusCode = 401 then
           MedusaError UNAUTHORIZED
             (contextStr @ '' Shiprocket authentication failed. Please verify your API credentials.'')
         else if statusCode = 404 then MedusaError NOT_FOUND (contextStr @ '' '' @ message)
         else if statusCode = 429 then
           MedusaError NOT_ALLOWED
             (contextStr @ '' Shiprocket rate limit exceeded. Please retry after a few seconds.'')
         else if statusCode = 400 then MedusaError INVALID_DATA (contextStr @ '' '' @ message)
         else if statusCode = 422 then MedusaError INVALID_DATA (contextStr @ '' '' @ message)
         else if statusCode = 405 then
           MedusaError INVALID_DATA
             (contextStr @ '' Invalid API method. This may indicate a plugin bug.'')
         else if statusCode \<in> set [500, 502, 503, 504] then
           MedusaError UNEXPECTED_STATE
             (contextStr @ '' Shiprocket server error ('' @ show_nat statusCode
                @ ''). Please try again later.'')
         else if ae_code axiosError = Some ''ECONNABORTED'' then
           MedusaError UNEXPECTED_STATE
             (contextStr @ '' Shiprocket request timed out. Please try again.'')
         else if ae_code axiosError = Some ''ENOTFOUND'' then
           MedusaError UNEXPECTED_STATE
             (contextStr @ '' Unable to connect to Shiprocket. Please check your network connection.'')
         else if ae_code axiosError = Some ''ECONNREFUSED'' then
           MedusaError UNEXPECTED_STATE
             (contextStr @ '' Unable to connect to Shiprocket. Please check your network connection.'')
         else MedusaError UNEXPECTED_STATE (contextStr @ '' '' @ message))"

section \<open>Cancelling an order\<close>

text \<open>
  \<open>cancel\<close>, given what the POST to \<open>/orders/cancel\<close> came to (an error of
  \<open>getSharedAxios\<close> included). The catch block serialises \<open>error?.response?.data\<close>;
  with no response data \<open>JSON.stringify\<close> yields \<open>undefined\<close> and the call of
  \<open>toLowerCase\<close> on it throws.
\<close>

definition cancel :: "exn + unit \<Rightarrow> string \<Rightarrow> exn + unit" where
  "cancel posted orderId =
     (case posted of
        Inr u \<Rightarrow> Inr ()
      | Inl error \<Rightarrow>
          (case ae_data_json (as_axios error) of
             None \<Rightarrow>
               Inl (TypeError ''Cannot read properties of undefined (reading toLowerCase)'')
           | Some json \<Rightarrow>
               (let messageStr = to_lower json
                in if str_includes messageStr ''already cancelled'' then Inr ()
                   else if str_includes messageStr ''already canceled'' then Inr ()
                   else if ae_status (as_axios error) = Some 400
                           \<and> str_includes messageStr ''cannot cancel'' then Inr ()
                   else Inl (handleError error (Some ''cancel'')))))"

subsection \<open>Sample rejections\<close>

text \<open>The JSON text of a response body that holds one message.\<close>

definition message_json :: "string \<Rightarrow> string" where
  "message_json msg =
     ''{'' @ [CHR 0x22] @ ''message'' @ [CHR 0x22] @ '':'' @ [CHR 0x22] @ msg @ [CHR 0x22] @ ''}''"

definition rejection :: "nat \<Rightarrow> string \<Rightarrow> exn" where
  "rejection code msg =
     AxiosError
       \<lparr>ae_status = Some code, ae_data_message = Some msg, ae_data_errors = None,
        ae_data_json = Some (message_json msg),
        ae_message = Some ''Request failed'', ae_code = Some ''ERR_BAD_REQUEST''\<rparr>"

section \<open>Public tracking route\<close>

record order_owner =
  customer_id :: "string option"

text \<open>
  \<open>GET /store/shiprocket/tracking/:awb\<close>: the HTTP status and, on success, the row whose
  fields the response carries. \<open>retrieveOrder\<close> is the host's order module: the order,
  or the message of the error it throws (\<open>None\<close> when the thrown value has no message).
\<close>

definition GET_tracking ::
  "(jsval \<Rightarrow> string option + order_owner) \<Rightarrow> string option \<Rightarrow> string \<Rightarrow> store
     \<Rightarrow> nat \<times> tracking option" where
  "GET_tracking retrieveOrder actorId awb st =
     (if awb = [] then (400, None)
      else (case findByAwb awb st of
              None \<Rightarrow> (404, None)
            | Some tracking \<Rightarrow>
                (case (if truthy (cols tracking ''medusa_order_id'')
                       then cols tracking ''medusa_order_id'' else None) of
                   None \<Rightarrow> (200, Some tracking)
                 | Some medusa_order_id \<Rightarrow>
                     (case retrieveOrder medusa_order_id of
                        Inr order \<Rightarrow>
                          if truthy (str (customer_id order)) \<and> customer_id order \<noteq> actorId
                          then (403, None)
                          else (200, Some tracking)
                      | Inl None \<Rightarrow> (500, None)
                      | Inl (Some message) \<Rightarrow>
                          if str_includes (to_lower message) ''not found''
                          then (200, Some tracking)
                          else (403, None)))))"

subsection \<open>A tracked order whose lookup fails\<close>

definition linked_row :: tracking where
  "linked_row = \<lparr>row_id = 1, cols = obj
     [(''awb'', Some (JStr ''AWB1'')),
      (''medusa_order_id'', Some (JStr ''order_01'')),
      (''current_status'', Some (JStr ''Delivered''))]\<rparr>"

definition order_lookup_not_found :: "jsval \<Rightarrow> string option + order_owner" where
  "order_lookup_not_found oid = Inl (Some ''Order with id: order_01 was not found'')"

definition order_lookup_down :: "jsval \<Rightarrow> string option + order_owner" where
  "order_lookup_down oid = Inl (Some ''connection refused'')"

definition order_of_alice :: "jsval \<Rightarrow> string option + order_owner" where
  "order_of_alice oid = Inr \<lparr>customer_id = Some ''cus_alice''\<rparr>"

section \<open>Double-precision arithmetic\<close>

text \<open>
  A finite double is written as the rational it denotes. An arithmetic operation of
  JavaScript returns the exact result rounded to 53 significant bits, to nearest, ties to
  even. The exponent range is not modelled: operands and results are taken to lie in the
  range of normal doubles, where nothing underflows or overflows.
\<close>

definition pow2 :: "int \<Rightarrow> rat" where
  "pow2 e = (if 0 \<le> e then 2 ^ nat e else 1 / 2 ^ nat (- e))"

text \<open>The binary exponent \<open>e\<close> of a positive number \<open>a\<close>: \<open>pow2 e \<le> a < pow2 (e + 1)\<close>.\<close>

definition exponent_of :: "rat \<Rightarrow> int" where
  "exponent_of a =
     (case quotient_of a of
        (p, q) \<Rightarrow>
          (let e0 = bitlen p - bitlen q
           in if pow2 e0 \<le> a then e0 else e0 - 1))"

definition round_half_even :: "rat \<Rightarrow> int" where
  "round_half_even n =
     (let f = \<lfloor>n\<rfloor>;
          d = n - of_int f
      in if d < 1 / 2 then f
         else if 1 / 2 < d then f + 1
         else if even f then f
         else f + 1)"

definition round_double :: "rat \<Rightarrow> rat" where
  "round_double x =
     (if x = 0 then 0
      else (let q = pow2 (exponent_of \<bar>x\<bar> - 52)
            in sgn x * of_int (round_half_even (\<bar>x\<bar> / q)) * q))"

text \<open>\<open>a + b\<close>, \<open>a * b\<close> and \<open>a / b\<close> on doubles, for a divisor other than zero.\<close>

definition fadd :: "rat \<Rightarrow> rat \<Rightarrow> rat" where
  "fadd a b = round_double (a + b)"

definition fmul :: "rat \<Rightarrow> rat \<Rightarrow> rat" where
  "fmul a b = round_double (a * b)"

definition fdiv :: "rat \<Rightarrow> rat \<Rightarrow> rat" where
  "fdiv a b = round_double (a / b)"

section \<open>Shipment creation\<close>

subsection \<open>Order data of the host\<close>

record product =
  p_weight :: "rat option"
  p_length :: "rat option"
  p_width :: "rat option"
  p_height :: "rat option"

record variant =
  v_weight :: "rat option"
  v_length :: "rat option"
  v_width :: "rat option"
  v_height :: "rat option"
  v_product :: "product option"
  v_sku :: "string option"
  v_hs_code :: "rat option"

record order_item =
  oi_id :: string
  oi_variant :: "variant option"
  oi_unit_price :: "rat option"
  oi_detail_unit_price :: "rat option"
  oi_variant_sku :: "string option"

record fulfillment_item =
  fi_id :: string
  fi_line_item_id :: string
  fi_title :: string
  fi_sku :: "string option"
  fi_quantity :: "rat option"
  fi_raw_quantity :: "rat option"

record address =
  a_first_name :: "string option"
  a_last_name :: "string option"
  a_address_1 :: "string option"
  a_address_2 :: "string option"
  a_city :: "string option"
  a_postal_code :: "string option"
  a_zip :: "string option"
  a_province :: "string option"
  a_country_code :: "string option"
  a_phone :: "string option"
  a_email :: "string option"

record order =
  o_id :: string
  o_items :: "order_item list option"
  o_shipping_address :: "address option"
  o_billing_address :: "address option"
  o_customer :: "address option"
  o_email :: "string option"
  o_payment_status :: "string option"

definition empty_address :: address where
  "empty_address =
     \<lparr>a_first_name = None, a_last_name = None, a_address_1 = None, a_address_2 = None,
      a_city = None, a_postal_code = None, a_zip = None, a_province = None,
      a_country_code = None, a_phone = None, a_email = None\<rparr>"

subsection \<open>Validation utilities\<close>

definition bind_exn :: "exn + 'a \<Rightarrow> ('a \<Rightarrow> exn + 'b) \<Rightarrow> exn + 'b" where
  "bind_exn r f = (case r of Inl e \<Rightarrow> Inl e | Inr v \<Rightarrow> f v)"

text \<open>\<open>a || b\<close> on optional strings.\<close>

definition or_str :: "string option \<Rightarrow> string option \<Rightarrow> string option" where
  "or_str a b = (case a of None \<Rightarrow> b | Some s \<Rightarrow> if s = [] then b else Some s)"

definition requireField :: "string option \<Rightarrow> string \<Rightarrow> exn + string" where
  "requireField v fieldName =
     (case v of
        None \<Rightarrow> Inl (MedusaError INVALID_DATA (''Missing required field: '' @ fieldName))
      | Some s \<Rightarrow>
          if s = [] then Inl (MedusaError INVALID_DATA (''Missing required field: '' @ fieldName))
          else Inr s)"

text \<open>\<open>Number\<close> of a string of digits.\<close>

definition digits_value :: "string \<Rightarrow> nat" where
  "digits_value s = (case parse_digits dec_digit 10 s None of None \<Rightarrow> 0 | Some n \<Rightarrow> n)"

definition validateAndSanitizePhone :: "string \<Rightarrow> string \<Rightarrow> exn + nat" where
  "validateAndSanitizePhone phone fieldName =
     (if phone = [] then Inl (MedusaError INVALID_DATA (fieldName @ '' is required''))
      else (let cleaned = filter is_digit phone
            in if length cleaned \<noteq> 10
               then Inl (MedusaError INVALID_DATA
                      (fieldName @ '' must be 10 digits, got '' @ show_nat (length cleaned)
                         @ '': '' @ phone))
               else Inr (digits_value cleaned)))"

definition validateAndSanitizePincode :: "string \<Rightarrow> string \<Rightarrow> exn + nat" where
  "validateAndSanitizePincode pincode fieldName =
     (if pincode = [] then Inl (MedusaError INVALID_DATA (fieldName @ '' is required''))
      else (let cleaned = filter is_digit pincode
            in if length cleaned \<noteq> 6
               then Inl (MedusaError INVALID_DATA
                      (fieldName @ '' must be 6 digits, got '' @ show_nat (length cleaned)
                         @ '': '' @ pincode))
               else Inr (digits_value cleaned)))"

subsection \<open>Totals and dimensions\<close>

text \<open>\<open>orderItemMap\<close>: a later order item replaces an earlier one of the same id.\<close>

definition orderItemMap :: "order \<Rightarrow> string \<rightharpoonup> order_item" where
  "orderItemMap order =
     (case o_items order of
        None \<Rightarrow> Map.empty
      | Some its \<Rightarrow> fold (\<lambda>orderItem m. m(oi_id orderItem \<mapsto> orderItem)) its Map.empty)"

text \<open>\<open>Number(variant.f || product?.f || 0)\<close>\<close>

definition dimension :: "rat option \<Rightarrow> rat option \<Rightarrow> rat" where
  "dimension v p = num_or v (num_or p 0)"

text \<open>\<open>Number(item.quantity || item.raw_quantity?.value || 1)\<close>\<close>

definition quantity_of :: "fulfillment_item \<Rightarrow> rat" where
  "quantity_of item = num_or (fi_quantity item) (num_or (fi_raw_quantity item) 1)"

definition weightGrams :: "variant \<Rightarrow> rat" where
  "weightGrams variant = dimension (v_weight variant) (opt_field (v_product variant) p_weight)"

text \<open>\<open>weightGrams / 1000\<close>\<close>

definition weight_kg :: "variant \<Rightarrow> rat" where
  "weight_kg variant = fdiv (weightGrams variant) 1000"

definition length_of :: "variant \<Rightarrow> rat" where
  "length_of variant = dimension (v_length variant) (opt_field (v_product variant) p_length)"

definition breadth_of :: "variant \<Rightarrow> rat" where
  "breadth_of variant = dimension (v_width variant) (opt_field (v_product variant) p_width)"

definition height_of :: "variant \<Rightarrow> rat" where
  "height_of variant = dimension (v_height variant) (opt_field (v_product variant) p_height)"

record totals =
  totalWeight :: rat
  totalLength :: rat
  totalBreadth :: rat
  totalHeight :: rat

definition no_totals :: totals where
  "no_totals = \<lparr>totalWeight = 0, totalLength = 0, totalBreadth = 0, totalHeight = 0\<rparr>"

text \<open>
  The loop over the fulfillment items (lines 192-233). The weights, dimensions and
  quantities of an order are doubles; the sums and products are those of doubles.
\<close>

fun calculate_totals ::
  "(string \<rightharpoonup> order_item) \<Rightarrow> fulfillment_item list \<Rightarrow> totals \<Rightarrow> exn + totals" where
  "calculate_totals m [] t = Inr t"
| "calculate_totals m (item # items) t =
     (case m (fi_line_item_id item) of
        None \<Rightarrow>
          Inl (MedusaError INVALID_DATA
                 (''Order item not found for fulfillment item: '' @ fi_title item))
      | Some orderItem \<Rightarrow>
          (case oi_variant orderItem of
             None \<Rightarrow>
               Inl (MedusaError INVALID_DATA (''Variant data missing for item: '' @ fi_title item))
           | Some variant \<Rightarrow>
               if weight_kg variant = 0 then
                 Inl (MedusaError INVALID_DATA
                        (''Missing dimensions/weight for '' @ [CHR 0x22] @ fi_title item
                           @ [CHR 0x22] @ ''. Please set them on the Variant.''))
               else if length_of variant = 0 then
                 Inl (MedusaError INVALID_DATA
                        (''Missing dimensions/weight for '' @ [CHR 0x22] @ fi_title item
                           @ [CHR 0x22] @ ''. Please set them on the Variant.''))
               else if breadth_of variant = 0 then
                 Inl (MedusaError INVALID_DATA
                        (''Missing dimensions/weight for '' @ [CHR 0x22] @ fi_title item
                           @ [CHR 0x22] @ ''. Please set them on the Variant.''))
               else if height_of variant = 0 then
                 Inl (MedusaError INVALID_DATA
                        (''Missing dimensions/weight for '' @ [CHR 0x22] @ fi_title item
                           @ [CHR 0x22] @ ''. Please set them on the Variant.''))
               else
                 calculate_totals m items
                   \<lparr>totalWeight = fadd (totalWeight t) (fmul (weight_kg variant) (quantity_of item)),
                    totalLength = max (totalLength t) (length_of variant),
                    totalBreadth = max (totalBreadth t) (breadth_of variant),
                    totalHeight = fadd (totalHeight t) (fmul (height_of variant) (quantity_of item))\<rparr>))"

subsection \<open>The carrier's order payload\<close>

record order_line =
  ol_name :: string
  ol_sku :: string
  ol_units :: rat
  ol_selling_price :: int
  ol_hsn :: rat

record order_data =
  od_order_id :: string
  od_order_date :: string
  od_pickup_location :: string
  billing_customer_name :: string
  billing_last_name :: string
  billing_address :: string
  billing_address_2 :: string
  billing_city :: string
  billing_pincode :: nat
  billing_state :: string
  billing_country :: string
  billing_email :: string
  billing_phone :: nat
  shipping_customer_name :: string
  shipping_last_name :: string
  shipping_address :: string
  shipping_address_2 :: string
  shipping_city :: string
  shipping_pincode :: nat
  shipping_country :: string
  shipping_state :: string
  shipping_email :: string
  shipping_phone :: nat
  od_order_items :: "order_line list"
  od_sub_total :: rat
  od_length :: rat
  od_breadth :: rat
  od_height :: rat
  od_weight :: rat

text \<open>\<open>Number(orderItem.unit_price || orderItem.detail?.unit_price || 0)\<close>\<close>

definition unit_price_of :: "order_item option \<Rightarrow> rat" where
  "unit_price_of oi =
     num_or (opt_field oi oi_unit_price) (num_or (opt_field oi oi_detail_unit_price) 0)"

definition order_line_of :: "(string \<rightharpoonup> order_item) \<Rightarrow> fulfillment_item \<Rightarrow> order_line" where
  "order_line_of m item =
     (let orderItem = m (fi_line_item_id item);
          variant = opt_field orderItem oi_variant
      in \<lparr>ol_name = fi_title item,
          ol_sku = str_or (opt_field variant v_sku)
                     (str_or (opt_field orderItem oi_variant_sku)
                        (str_or (fi_sku item) (fi_id item))),
          ol_units = quantity_of item,
          ol_selling_price = \<lfloor>unit_price_of orderItem + 1 / 2\<rfloor>,
          ol_hsn = num_or (opt_field variant v_hs_code) 0\<rparr>)"

text \<open>
  \<open>orderData\<close> (lines 192-294): the totals, then the fields of the object literal in the
  order they are evaluated; the first failing check throws. \<open>now\<close> is \<open>Date.now()\<close>,
  \<open>orderDate\<close> the formatted creation date.
\<close>

definition build_order_data ::
  "string option \<Rightarrow> address option \<Rightarrow> fulfillment_item list \<Rightarrow> order \<Rightarrow> int \<Rightarrow> string
     \<Rightarrow> exn + order_data" where
  "build_order_data pickup_location delivery_address items order now orderDate =
     (let m = orderItemMap order;
          shipping = (case o_shipping_address order of
                        Some a \<Rightarrow> a
                      | None \<Rightarrow> (case delivery_address of Some a \<Rightarrow> a | None \<Rightarrow> empty_address));
          billing = (case o_billing_address order of
                       Some a \<Rightarrow> a
                     | None \<Rightarrow> (case o_customer order of Some a \<Rightarrow> a | None \<Rightarrow> empty_address))
      in
      bind_exn (calculate_totals m items no_totals) (\<lambda>t.
      bind_exn (requireField (a_first_name billing) ''Billing First Name'') (\<lambda>b_name.
      bind_exn (requireField (or_str (a_address_1 shipping) (a_address_1 billing))
                  ''Billing Address'') (\<lambda>b_address.
      bind_exn (requireField (or_str (a_city shipping) (a_city billing)) ''Billing City'') (\<lambda>b_city.
      bind_exn (requireField (or_str (a_postal_code shipping) (a_postal_code billing))
                  ''Billing Pincode'') (\<lambda>b_pin0.
      bind_exn (validateAndSanitizePincode b_pin0 ''Billing Pincode'') (\<lambda>b_pin.
      bind_exn (requireField (or_str (a_province shipping) (a_province billing))
                  ''Billing State'') (\<lambda>b_state.
      bind_exn (requireField (or_str (a_country_code shipping)
                                (or_str (a_country_code billing) (Some ''IN'')))
                  ''Billing Country'') (\<lambda>b_country.
      bind_exn (requireField (or_str (a_email billing) (o_email order)) ''Billing Email'') (\<lambda>b_email.
      bind_exn (requireField (or_str (a_phone shipping) (a_phone billing)) ''Billing Phone'') (\<lambda>b_phone0.
      bind_exn (validateAndSanitizePhone b_phone0 ''Billing Phone'') (\<lambda>b_phone.
      bind_exn (requireField (a_first_name shipping) ''Shipping First Name'') (\<lambda>s_name.
      bind_exn (requireField (a_address_1 shipping) ''Shipping Address'') (\<lambda>s_address.
      bind_exn (requireField (a_city shipping) ''Shipping City'') (\<lambda>s_city.
      bind_exn (requireField (a_postal_code shipping) ''Shipping Pincode'') (\<lambda>s_pin0.
      bind_exn (validateAndSanitizePincode s_pin0 ''Shipping Pincode'') (\<lambda>s_pin.
      bind_exn (requireField (or_str (a_country_code shipping) (Some ''IN''))
                  ''Shipping Country'') (\<lambda>s_country.
      bind_exn (requireField (a_province shipping) ''Shipping State'') (\<lambda>s_state.
      bind_exn (requireField (or_str (a_email billing) (o_email order)) ''Shipping Email'') (\<lambda>s_email.
      bind_exn (requireField (a_phone shipping) ''Shipping Phone'') (\<lambda>s_phone0.
      bind_exn (validateAndSanitizePhone s_phone0 ''Shipping Phone'') (\<lambda>s_phone.
      Inr \<lparr>od_order_id = o_id order @ ''-'' @ show_int (now div 1000),
           od_order_date = orderDate,
           od_pickup_location = str_or pickup_location ''Primary'',
           billing_customer_name = b_name,
           billing_last_name = str_or (a_last_name billing) [],
           billing_address = b_address,
           billing_address_2 = str_or (a_address_2 shipping) (str_or (a_address_2 billing) []),
           billing_city = b_city,
           billing_pincode = b_pin,
           billing_state = b_state,
           billing_country = b_country,
           billing_email = b_email,
           billing_phone = b_phone,
           shipping_customer_name = s_name,
           shipping_last_name = str_or (a_last_name shipping) [],
           shipping_address = s_address,
           shipping_address_2 = str_or (a_address_2 shipping) [],
           shipping_city = s_city,
           shipping_pincode = s_pin,
           shipping_country = s_country,
           shipping_state = s_state,
           shipping_email = s_email,
           shipping_phone = s_phone,
           od_order_items = map (order_line_of m) items,
           od_sub_total =
             fold (\<lambda>item sum.
                     fadd sum (fmul (unit_price_of (m (fi_line_item_id item))) (quantity_of item)))
               items 0,
           od_length = totalLength t,
           od_breadth = totalBreadth t,
           od_height = totalHeight t,
           od_weight = totalWeight t\<rparr>))))))))))))))))))))))"

subsection \<open>The calls to the carrier\<close>

record order_created =
  oc_order_id :: string
  oc_shipment_id :: "string option"
  oc_courier_name :: "string option"

record awb_created =
  awb_assign_status :: "int option"
  awb_message :: "string option"
  awb_code :: string
  awb_courier_company_id :: "int option"
  awb_courier_name :: "string option"

record create_response =
  cr_order_id :: string
  cr_shipment_id :: string
  cr_awb :: string
  cr_courier_company_id :: "int option"
  cr_courier_name :: "string option"
  cr_tracking_number :: string
  cr_tracking_url :: string

text \<open>
  What each outbound request of \<open>create\<close> comes to: the order creation, the manager's
  preferred courier, the waybill assignment and the compensating cancellation. An error of
  \<open>getSharedAxios\<close> counts as the error of the request it precedes.
\<close>

record carrier =
  post_order :: "order_data \<Rightarrow> exn + order_created"
  preferred_courier :: "estimate_request \<Rightarrow> exn + int option"
  post_awb :: "string \<Rightarrow> int option \<Rightarrow> exn + awb_created"
  post_cancel :: "string \<Rightarrow> exn + unit"

datatype request =
    CreateOrder order_data
  | PreferredCourier estimate_request
  | AssignAwb string "int option"
  | CancelOrder string

text \<open>The outer catch: a \<open>MedusaError\<close> passes, anything else goes to \<open>handleError\<close>.\<close>

fun rethrow :: "exn \<Rightarrow> exn" where
  "rethrow (MedusaError t msg) = MedusaError t msg"
| "rethrow e = handleError e (Some ''create'')"

text \<open>The \<open>.catch\<close> on the order creation: the first field error of the carrier, if any.\<close>

definition order_error :: "exn \<Rightarrow> exn" where
  "order_error err =
     (case ae_data_errors (as_axios err) of
        None \<Rightarrow> err
      | Some errors \<Rightarrow>
          MedusaError INVALID_DATA
            (''Shiprocket: '' @
               (case errors of
                  [] \<Rightarrow> ''undefined''
                | (field, msgs) # rest \<Rightarrow> (case msgs of [] \<Rightarrow> ''undefined'' | msg # others \<Rightarrow> msg))))"

text \<open>Lines 316-332: the preferred courier, or none when the lookup fails.\<close>

definition courier_lookup ::
  "carrier \<Rightarrow> address \<Rightarrow> address \<Rightarrow> order \<Rightarrow> rat \<Rightarrow> int option \<times> request list" where
  "courier_lookup net shipping billing order w =
     (case or_str (a_postal_code shipping) (a_zip shipping) of
        None \<Rightarrow> (None, [])
      | Some pickupPincode \<Rightarrow>
          (case or_str (a_postal_code billing) (a_zip billing) of
             None \<Rightarrow> (None, [])
           | Some deliveryPincode \<Rightarrow>
               (let data = \<lparr>pickup_postcode = pickupPincode, delivery_postcode = deliveryPincode,
                             weight = Some w,
                             cod = Some (if o_payment_status order = Some ''awaiting'' then 1 else 0)\<rparr>
                in (case preferred_courier net data of
                      Inl e \<Rightarrow> (None, [PreferredCourier data])
                    | Inr courierId \<Rightarrow> (courierId, [PreferredCourier data])))))"

text \<open>
  \<open>create\<close>: the response or the error thrown, and the outbound requests made, in order.
\<close>

definition create ::
  "carrier \<Rightarrow> string option \<Rightarrow> address option \<Rightarrow> fulfillment_item list \<Rightarrow> order \<Rightarrow> int \<Rightarrow> string
     \<Rightarrow> (exn + create_response) \<times> request list" where
  "create net pickup_location delivery_address items order now orderDate =
     (case build_order_data pickup_location delivery_address items order now orderDate of
        Inl e \<Rightarrow> (Inl (rethrow e), [])
      | Inr orderData \<Rightarrow>
          (case post_order net orderData of
             Inl err \<Rightarrow> (Inl (rethrow (order_error err)), [CreateOrder orderData])
           | Inr orderCreated \<Rightarrow>
               (case (if oc_shipment_id orderCreated = Some [] then None
                      else oc_shipment_id orderCreated) of
                  None \<Rightarrow>
                    (Inl (MedusaError INVALID_DATA
                            ''Shiprocket order created but no shipment ID returned''),
                     [CreateOrder orderData])
                | Some shipment_id \<Rightarrow>
                    (let shipping = (case o_shipping_address order of
                                       Some a \<Rightarrow> a
                                     | None \<Rightarrow> (case delivery_address of
                                                  Some a \<Rightarrow> a | None \<Rightarrow> empty_address));
                         billing = (case o_billing_address order of
                                      Some a \<Rightarrow> a
                                    | None \<Rightarrow> (case o_customer order of
                                                 Some a \<Rightarrow> a | None \<Rightarrow> empty_address));
                         looked = courier_lookup net shipping billing order (od_weight orderData);
                         courierId = (case fst looked of
                                        None \<Rightarrow> None
                                      | Some c \<Rightarrow> if c = 0 then None else Some c);
                         sent = [CreateOrder orderData] @ snd looked @ [AssignAwb shipment_id courierId]
                     in (case post_awb net shipment_id courierId of
                           Inl err \<Rightarrow> (Inl (rethrow err), sent)
                         | Inr awbCreated \<Rightarrow>
                             if awb_assign_status awbCreated = Some 1 then
                               (Inr \<lparr>cr_order_id = oc_order_id orderCreated,
                                     cr_shipment_id = shipment_id,
                                     cr_awb = awb_code awbCreated,
                                     cr_courier_company_id = awb_courier_company_id awbCreated,
                                     cr_courier_name =
                                       or_str (awb_courier_name awbCreated)
                                         (oc_courier_name orderCreated),
                                     cr_tracking_number = awb_code awbCreated,
                                     cr_tracking_url =
                                       ''https://shiprocket.co/tracking/'' @ awb_code awbCreated\<rparr>,
                                sent)
                             else
                               (case cancel (post_cancel net (oc_order_id orderCreated))
                                       (oc_order_id orderCreated) of
                                  cancelled \<Rightarrow>
                                    (Inl (MedusaError NOT_ALLOWED
                                            (str_or (awb_message awbCreated)
                                               ''AWB assignment failed - no courier available'')),
                                     sent @ [CancelOrder (oc_order_id orderCreated)])))))))"

subsection \<open>The vocabulary of the specification\<close>

text \<open>A weight or dimension is missing when it is absent or zero.\<close>

definition missing :: "rat option \<Rightarrow> bool" where
  "missing x = (x = None \<or> x = Some 0)"


text \<open>The variant a fulfillment item resolves to, and its measures.\<close>

definition item_variant :: "(string \<rightharpoonup> order_item) \<Rightarrow> fulfillment_item \<Rightarrow> variant option" where
  "item_variant m item = opt_field (m (fi_line_item_id item)) oi_variant"

definition item_grams :: "(string \<rightharpoonup> order_item) \<Rightarrow> fulfillment_item \<Rightarrow> rat" where
  "item_grams m item = (case item_variant m item of None \<Rightarrow> 0 | Some v \<Rightarrow> weightGrams v)"

definition item_length :: "(string \<rightharpoonup> order_item) \<Rightarrow> fulfillment_item \<Rightarrow> rat" where
  "item_length m item = (case item_variant m item of None \<Rightarrow> 0 | Some v \<Rightarrow> length_of v)"

definition item_width :: "(string \<rightharpoonup> order_item) \<Rightarrow> fulfillment_item \<Rightarrow> rat" where
  "item_width m item = (case item_variant m item of None \<Rightarrow> 0 | Some v \<Rightarrow> breadth_of v)"

definition item_height :: "(string \<rightharpoonup> order_item) \<Rightarrow> fulfillment_item \<Rightarrow> rat" where
  "item_height m item = (case item_variant m item of None \<Rightarrow> 0 | Some v \<Rightarrow> height_of v)"

text \<open>Weight, length, breadth and height of the order payload \<open>create\<close> sent first.\<close>

fun sent_dimensions :: "request list \<Rightarrow> (rat \<times> rat \<times> rat \<times> rat) option" where
  "sent_dimensions (CreateOrder od # rest) =
     Some (od_weight od, od_length od, od_breadth od, od_height od)"
| "sent_dimensions other = None"

subsection \<open>A sample order\<close>

definition sample_address :: address where
  "sample_address =
     \<lparr>a_first_name = Some ''Asha'', a_last_name = Some ''Rao'',
      a_address_1 = Some ''12 MG Road'', a_address_2 = None, a_city = Some ''Bengaluru'',
      a_postal_code = Some ''560001'', a_zip = None, a_province = Some ''Karnataka'',
      a_country_code = Some ''IN'', a_phone = Some ''98765 43210'',
      a_email = Some ''asha@example.com''\<rparr>"

definition mk_variant :: "rat option \<Rightarrow> rat option \<Rightarrow> rat option \<Rightarrow> rat option \<Rightarrow> variant" where
  "mk_variant w l b h =
     \<lparr>v_weight = w, v_length = l, v_width = b, v_height = h, v_product = None,
      v_sku = Some ''SKU'', v_hs_code = None\<rparr>"

definition mk_line :: "string \<Rightarrow> variant \<Rightarrow> order_item" where
  "mk_line lid v =
     \<lparr>oi_id = lid, oi_variant = Some v, oi_unit_price = Some 100,
      oi_detail_unit_price = None, oi_variant_sku = None\<rparr>"

definition mk_item :: "string \<Rightarrow> string \<Rightarrow> rat \<Rightarrow> fulfillment_item" where
  "mk_item lid title q =
     \<lparr>fi_id = lid, fi_line_item_id = lid, fi_title = title, fi_sku = None,
      fi_quantity = Some q, fi_raw_quantity = None\<rparr>"

definition mk_order :: "order_item list \<Rightarrow> order" where
  "mk_order lines =
     \<lparr>o_id = ''order_01'', o_items = Some lines, o_shipping_address = Some sample_address,
      o_billing_address = Some sample_address, o_customer = None,
      o_email = Some ''asha@example.com'', o_payment_status = Some ''captured''\<rparr>"

text \<open>Two items: 200 g, 10 x 8 x 2 cm, once; 300 g, 12 x 6 x 3 cm, twice.\<close>

definition two_lines :: "order_item list" where
  "two_lines =
     [mk_line ''li_1'' (mk_variant (Some 200) (Some 10) (Some 8) (Some 2)),
      mk_line ''li_2'' (mk_variant (Some 300) (Some 12) (Some 6) (Some 3))]"

definition two_items :: "fulfillment_item list" where
  "two_items = [mk_item ''li_1'' ''Mug'' 1, mk_item ''li_2'' ''Plate'' 2]"


text \<open>One item, 500 g, whose variant records a negative length.\<close>

definition lines_negative :: "order_item list" where
  "lines_negative = [mk_line ''li_1'' (mk_variant (Some 500) (Some (- 5)) (Some 8) (Some 2))]"

definition one_item :: "fulfillment_item list" where
  "one_item = [mk_item ''li_1'' ''Mug'' 1]"

text \<open>A carrier that accepts the order and assigns a waybill.\<close>

definition sample_carrier :: carrier where
  "sample_carrier =
     \<lparr>post_order = (\<lambda>od. Inr \<lparr>oc_order_id = ''16178831'', oc_shipment_id = Some ''16090281'',
                                  oc_courier_name = None\<rparr>),
      preferred_courier = (\<lambda>data. Inr (Some 3)),
      post_awb = (\<lambda>shipment courier.
         Inr \<lparr>awb_assign_status = Some 1, awb_message = None, awb_code = ''AWB1'',
              awb_courier_company_id = Some 3, awb_courier_name = Some ''C''\<rparr>),
      post_cancel = (\<lambda>oid. Inr ())\<rparr>"

section \<open>Token refresh under interleaved callers\<close>

text \<open>
  JavaScript runs one caller at a time, up to its next \<open>await\<close>. A caller of the manager
  is idle, or suspended at one of the three awaits on \<open>tokenRefreshPromise\<close>: in
  \<open>ensureToken\<close> (line 208), in \<open>refreshToken\<close> as a waiter (line 222), or in
  \<open>refreshToken\<close> as the caller that created the promise (line 229) and will clear the
  field in its \<open>finally\<close>. Promises are numbered in the order they are created.
\<close>

datatype pc = Idle | AwaitEnsure nat | AwaitRefresh nat | AwaitOwner nat

text \<open>
  The manager as the callers see it: whether \<open>isTokenValid()\<close> holds, the field
  \<open>tokenRefreshPromise\<close>, the login requests sent and not yet answered, the number of
  login requests sent so far, and where each caller stands.
\<close>

record refresher =
  tokenValid :: bool
  tokenRefreshPromise :: "nat option"
  in_flight :: "nat list"
  started :: nat
  pcs :: "nat \<Rightarrow> pc"

datatype event =
    GetAxios nat
  | ForceRefresh nat
  | LoginAnswered nat bool
  | Resume nat
  | Expire

text \<open>
  \<open>refreshToken\<close> entered by caller \<open>i\<close>, up to its await: with a promise in the field
  the caller waits for it; otherwise \<open>doRefreshToken\<close> sends the login request and the
  caller stores the new promise.
\<close>

definition enter_refreshToken :: "nat \<Rightarrow> refresher \<Rightarrow> refresher" where
  "enter_refreshToken i s =
     (case tokenRefreshPromise s of
        Some p \<Rightarrow> s\<lparr>pcs := (pcs s)(i := AwaitRefresh p)\<rparr>
      | None \<Rightarrow>
          s\<lparr>tokenRefreshPromise := Some (started s),
            in_flight := in_flight s @ [started s],
            started := Suc (started s),
            pcs := (pcs s)(i := AwaitOwner (started s))\<rparr>)"

text \<open>
  One atomic step. \<open>GetAxios i\<close>: an idle caller calls \<open>getAxios\<close>, so
  \<open>ensureToken\<close>. \<open>ForceRefresh i\<close>: an idle caller calls \<open>forceRefreshToken\<close> (or
  the 401 interceptor calls \<open>refreshToken\<close>). \<open>LoginAnswered p ok\<close>: the carrier
  answers the login request of promise \<open>p\<close>, which settles. \<open>Resume i\<close>: a caller
  whose awaited promise has settled runs on; the creator of the promise clears the field.
  \<open>Expire\<close>: time passes and the token is no longer valid. An event that is not enabled
  changes nothing.
\<close>

fun step :: "event \<Rightarrow> refresher \<Rightarrow> refresher" where
  "step (GetAxios i) s =
     (if pcs s i = Idle then
        (if tokenValid s then s
         else (case tokenRefreshPromise s of
                 Some p \<Rightarrow> s\<lparr>pcs := (pcs s)(i := AwaitEnsure p)\<rparr>
               | None \<Rightarrow> enter_refreshToken i s))
      else s)"
| "step (ForceRefresh i) s = (if pcs s i = Idle then enter_refreshToken i s else s)"
| "step (LoginAnswered p ok) s =
     (if p \<in> set (in_flight s)
      then s\<lparr>in_flight := removeAll p (in_flight s),
             tokenValid := (if ok then True else tokenValid s)\<rparr>
      else s)"
| "step (Resume i) s =
     (case pcs s i of
        Idle \<Rightarrow> s
      | AwaitEnsure p \<Rightarrow> if p \<in> set (in_flight s) then s else s\<lparr>pcs := (pcs s)(i := Idle)\<rparr>
      | AwaitRefresh p \<Rightarrow> if p \<in> set (in_flight s) then s else s\<lparr>pcs := (pcs s)(i := Idle)\<rparr>
      | AwaitOwner p \<Rightarrow>
          if p \<in> set (in_flight s) then s
          else s\<lparr>tokenRefreshPromise := None, pcs := (pcs s)(i := Idle)\<rparr>)"
| "step Expire s = s\<lparr>tokenValid := False\<rparr>"

definition fresh_manager :: "bool \<Rightarrow> refresher" where
  "fresh_manager valid =
     \<lparr>tokenValid = valid, tokenRefreshPromise = None, in_flight = [], started = 0,
      pcs = (\<lambda>i. Idle)\<rparr>"

text \<open>The manager after a sequence of events, the first event first.\<close>

definition run :: "event list \<Rightarrow> refresher \<Rightarrow> refresher" where
  "run evs s = fold step evs s"

text \<open>
  What every reachable manager satisfies: a login in flight belongs to the promise in the
  field, the field is set while its creator waits, and at most one caller is a creator.
\<close>

definition coalesced :: "refresher \<Rightarrow> bool" where
  "coalesced s =
     ((\<forall>p \<in> set (in_flight s). tokenRefreshPromise s = Some p)
      \<and> distinct (in_flight s)
      \<and> (\<forall>i p. pcs s i = AwaitOwner p \<longrightarrow> tokenRefreshPromise s = Some p)
      \<and> (\<forall>i j p q. pcs s i = AwaitOwner p \<and> pcs s j = AwaitOwner q \<longrightarrow> i = j))"

section \<open>Evaluation lemmas\<close>

lemma obj_Nil: "obj [] k = None"
  by (simp add: obj_def)

lemma obj_Cons: "obj ((k, v) # kvs) k' = (if k' = k then v else obj kvs k')"
  by (simp add: obj_def split: option.splits)

lemma show_int_codes:
  "show_int 1 = ''1''" "show_int 6 = ''6''" "show_int 7 = ''7''" "show_int 8 = ''8''"
  "show_int 9 = ''9''" "show_int 13 = ''13''" "show_int 17 = ''17''" "show_int 18 = ''18''"
  "show_int 19 = ''19''" "show_int 20 = ''20''" "show_int 21 = ''21''"
  by (simp_all add: show_int_def show_nat.simps digit_char_def)

section \<open>Upsert by waybill\<close>

lemma filter_updated_row:
  assumes "distinct (map row_id st)" and "ex \<in> set st"
  shows "filter (\<lambda>r. row_id r = row_id ex)
           (map (\<lambda>r. if row_id r = row_id ex then r\<lparr>cols := cols r ++ upd\<rparr> else r) st)
         = [ex\<lparr>cols := cols ex ++ upd\<rparr>]"
  using assms
proof (induction st)
  case Nil
  then show ?case by simp
next
  case (Cons a st)
  show ?case
  proof (cases "a = ex")
    case True
    have "\<forall>r \<in> set st. row_id r \<noteq> row_id ex"
      using Cons.prems(1) True by (auto simp: image_iff)
    then have "filter (\<lambda>r. row_id r = row_id ex)
           (map (\<lambda>r. if row_id r = row_id ex then r\<lparr>cols := cols r ++ upd\<rparr> else r) st) = []"
      by (induction st) auto
    then show ?thesis using True by simp
  next
    case False
    then have in_st: "ex \<in> set st" using Cons.prems(2) by simp
    then have "row_id a \<noteq> row_id ex" using Cons.prems(1) by force
    then show ?thesis using Cons.IH in_st Cons.prems(1) by simp
  qed
qed

lemma list_take1_mem:
  "listShiprocketTrackings awb 1 st = [ex] \<Longrightarrow> ex \<in> set st"
  unfolding listShiprocketTrackings_def
  by (metis in_set_takeD list.set_intros(1) filter_is_subset subsetD)

lemma updateData_merge:
  "(ex ++ updateData data) f =
     (if f \<in> set mutable_fields then (case data f of None \<Rightarrow> ex f | Some v \<Rightarrow> Some v) else ex f)"
  by (simp add: updateData_def map_add_def split: option.splits)

text \<open>
  C2, as the service has it. The table holds one row per primary key. When no row carries
  the waybill, the call appends a row whose columns are the supplied fields. When a row
  \<open>ex\<close> carries it, the returned row is \<open>ex\<close> with every mutable field
  (\<open>mutable_fields\<close>) that the update supplies overwritten by the supplied value; a
  field the update leaves undefined keeps the stored value, and so does every field outside
  \<open>mutable_fields\<close>, supplied or not. No other row changes.
\<close>

theorem upsertByAwb_merge:
  assumes "distinct (map row_id st)"
  shows "(listShiprocketTrackings (data ''awb'') 1 st = [] \<longrightarrow>
            upsertByAwb data st =
              (Some \<lparr>row_id = fresh_id st, cols = data\<rparr>,
               st @ [\<lparr>row_id = fresh_id st, cols = data\<rparr>]))
       \<and> (\<forall>ex. listShiprocketTrackings (data ''awb'') 1 st = [ex] \<longrightarrow>
            (\<exists>r. upsertByAwb data st =
                   (Some r, map (\<lambda>x. if row_id x = row_id ex
                                     then x\<lparr>cols := cols x ++ updateData data\<rparr> else x) st)
                 \<and> row_id r = row_id ex
                 \<and> (\<forall>f. cols r f =
                        (if f \<in> set mutable_fields
                         then (case data f of None \<Rightarrow> cols ex f | Some v \<Rightarrow> Some v)
                         else cols ex f))))"
proof (intro conjI allI impI)
  assume "listShiprocketTrackings (data ''awb'') 1 st = []"
  then show "upsertByAwb data st =
      (Some \<lparr>row_id = fresh_id st, cols = data\<rparr>, st @ [\<lparr>row_id = fresh_id st, cols = data\<rparr>])"
    by (simp add: upsertByAwb_def createShiprocketTrackings_def Let_def)
next
  fix ex
  assume h: "listShiprocketTrackings (data ''awb'') 1 st = [ex]"
  then have mem: "ex \<in> set st" by (rule list_take1_mem)
  let ?r = "ex\<lparr>cols := cols ex ++ updateData data\<rparr>"
  let ?st = "map (\<lambda>x. if row_id x = row_id ex
                       then x\<lparr>cols := cols x ++ updateData data\<rparr> else x) st"
  have "upsertByAwb data st = (Some ?r, ?st)"
    using h filter_updated_row [OF assms mem, of "updateData data"]
    by (simp add: upsertByAwb_def updateShiprocketTrackings_def Let_def)
  moreover have "row_id ?r = row_id ex" by simp
  moreover have "\<forall>f. cols ?r f =
      (if f \<in> set mutable_fields then (case data f of None \<Rightarrow> cols ex f | Some v \<Rightarrow> Some v)
       else cols ex f)"
    using updateData_merge [of "cols ex" data] by simp
  ultimately show "\<exists>r. upsertByAwb data st = (Some r, ?st)
                 \<and> row_id r = row_id ex
                 \<and> (\<forall>f. cols r f =
                        (if f \<in> set mutable_fields
                         then (case data f of None \<Rightarrow> cols ex f | Some v \<Rightarrow> Some v)
                         else cols ex f))"
    by blast
qed

lemma row_A_found:
  "listShiprocketTrackings (Some (JStr ''AWB1'')) 1 [row_A] = [row_A]"
  by (simp add: listShiprocketTrackings_def row_A_def obj_def)

theorem upsertByAwb_merge_witness:
  "distinct (map row_id [row_A])
   \<and> listShiprocketTrackings (status_only ''awb'') 1 [row_A] = [row_A]
   \<and> col_of (fst (upsertByAwb status_only [row_A])) ''scans'' = Some (JArr [JStr ''A''])
   \<and> col_of (fst (upsertByAwb status_only [row_A])) ''current_status'' = Some (JStr ''Delivered'')
   \<and> distinct (map row_id [])
   \<and> listShiprocketTrackings (status_only ''awb'') 1 [] = []
   \<and> col_of (fst (upsertByAwb status_only [])) ''current_status'' = Some (JStr ''Delivered'')"
proof -
  have d: "distinct (map row_id [row_A])" by simp
  have e: "distinct (map row_id ([] :: store))" by simp
  have awb: "status_only ''awb'' = Some (JStr ''AWB1'')"
    by (simp add: status_only_def obj_def)
  have found: "listShiprocketTrackings (status_only ''awb'') 1 [row_A] = [row_A]"
    using row_A_found awb by simp
  have none: "listShiprocketTrackings (status_only ''awb'') 1 [] = []"
    by (simp add: listShiprocketTrackings_def)
  from upsertByAwb_merge [OF d, of status_only] found
  obtain r where r: "fst (upsertByAwb status_only [row_A]) = Some r"
    and f: "\<And>f. cols r f = (if f \<in> set mutable_fields
               then (case status_only f of None \<Rightarrow> cols row_A f | Some v \<Rightarrow> Some v)
               else cols row_A f)"
    by fastforce
  have s1: "col_of (fst (upsertByAwb status_only [row_A])) ''scans'' = Some (JArr [JStr ''A''])"
    using r f [of "''scans''"]
    by (simp add: mutable_fields_def status_only_def row_A_def obj_def)
  have s2: "col_of (fst (upsertByAwb status_only [row_A])) ''current_status''
            = Some (JStr ''Delivered'')"
    using r f [of "''current_status''"]
    by (simp add: mutable_fields_def status_only_def row_A_def obj_def)
  have s3: "col_of (fst (upsertByAwb status_only [])) ''current_status''
            = Some (JStr ''Delivered'')"
    using upsertByAwb_merge [OF e, of status_only] none
    by (simp add: status_only_def obj_def)
  show ?thesis using d e found none s1 s2 s3 by simp
qed

text \<open>
  The claim as stated has every supplied field overwritten. A courier name supplied for a
  waybill that already has a row is not in \<open>updateData\<close>: the stored name stays.
\<close>

theorem upsertByAwb_supplied_counterexample:
  "listShiprocketTrackings (courier_update ''awb'') 1 [row_A] = [row_A]
   \<and> courier_update ''courier_name'' = Some (JStr ''Courier B'')
   \<and> col_of (fst (upsertByAwb courier_update [row_A])) ''courier_name''
       = Some (JStr ''Courier A'')"
  by (simp add: upsertByAwb_def listShiprocketTrackings_def courier_update_def row_A_def
      obj_def updateShiprocketTrackings_def updateData_def mutable_fields_def Let_def
      map_add_def)

section \<open>Status normalisation on the two routes\<close>

lemma statusMap_codes:
  "statusMap_at (Some (JNum 1)) = Some ''AWB Assigned''"
  "statusMap_at (Some (JNum 6)) = Some ''Shipped''"
  "statusMap_at (Some (JNum 7)) = Some ''Delivered''"
  "statusMap_at (Some (JNum 8)) = Some ''Cancelled''"
  "statusMap_at (Some (JNum 9)) = Some ''RTO Initiated''"
  "statusMap_at (Some (JNum 13)) = Some ''Pickup Error''"
  "statusMap_at (Some (JNum 17)) = Some ''In Transit''"
  "statusMap_at (Some (JNum 18)) = Some ''In Transit''"
  "statusMap_at (Some (JNum 19)) = Some ''RTO In Transit''"
  "statusMap_at (Some (JNum 20)) = Some ''RTO In Transit''"
  "statusMap_at (Some (JNum 21)) = Some ''Reached Destination''"
  by (simp_all add: statusMap_at_def statusMap_def show_int_codes)

lemma list_all_table:
  "list_all (\<lambda>p. statusMap_at (Some (JNum (fst p))) = Some (snd p) \<and> snd p \<noteq> [] \<and> fst p \<noteq> 0)
     spec_status_table"
  by (simp add: spec_status_table_def statusMap_codes)

lemma statusMap_at_table:
  assumes "(c, l) \<in> set spec_status_table"
  shows "statusMap_at (Some (JNum c)) = Some l \<and> l \<noteq> [] \<and> c \<noteq> 0"
  using list_all_table assms unfolding list_all_iff by fastforce

lemma normalize_status_table:
  "(c, l) \<in> set spec_status_table \<Longrightarrow> normalize_status (Some (JNum c)) = Some (JStr l)"
  using statusMap_at_table [of c l] by (simp add: normalize_status_def)

lemma normalize_shipment_status_table:
  "(c, l) \<in> set spec_status_table \<Longrightarrow>
     normalize_shipment_status (or_null (Some (JNum c))) = Some (JStr l)"
  using statusMap_at_table [of c l]
  by (simp add: normalize_shipment_status_def or_null_def js_or_def str_def)

lemma sync_current_status:
  "sync_upsert_data awb td raw now ''current_status'' =
     normalize_status
       (js_or (td_current_status td) (js_or (td_track_status td) (Some (JStr ''Unknown''))))"
  by (simp add: sync_upsert_data_def Let_def obj_Cons)

lemma sync_shipment_status:
  "sync_upsert_data awb td raw now ''shipment_status'' =
     normalize_shipment_status (or_null (td_shipment_status td))"
  by (simp add: sync_upsert_data_def Let_def obj_Cons)

text \<open>
  The pull route applies the table: a code of the table in \<open>current_status\<close> or in
  \<open>shipment_status\<close> reaches \<open>upsertByAwb\<close> as its label.
\<close>

lemma sync_stores_labels:
  assumes "(c, l) \<in> set spec_status_table"
  shows "td_current_status td = Some (JNum c) \<Longrightarrow>
           sync_upsert_data awb td raw now ''current_status'' = Some (JStr l)"
    and "td_shipment_status td = Some (JNum c) \<Longrightarrow>
           sync_upsert_data awb td raw now ''shipment_status'' = Some (JStr l)"
proof -
  have nz: "c \<noteq> 0" using statusMap_at_table [OF assms] by simp
  show "td_current_status td = Some (JNum c) \<Longrightarrow>
           sync_upsert_data awb td raw now ''current_status'' = Some (JStr l)"
    using normalize_status_table [OF assms] nz
    by (simp add: sync_current_status js_or_def)
  show "td_shipment_status td = Some (JNum c) \<Longrightarrow>
           sync_upsert_data awb td raw now ''shipment_status'' = Some (JStr l)"
    using normalize_shipment_status_table [OF assms] nz
    by (simp add: sync_shipment_status)
qed

text \<open>The push route hands both status fields to \<open>upsertByAwb\<close> as they arrived.\<close>

lemma hook_stores_raw:
  "hook_upsert_data payload ''current_status'' = wp_current_status payload"
  "hook_upsert_data payload ''shipment_status'' = wp_shipment_status payload"
  by (simp_all add: hook_upsert_data_def obj_Cons)

lemma upsertByAwb_empty:
  "upsertByAwb data [] =
     (Some \<lparr>row_id = fresh_id [], cols = data\<rparr>, [\<lparr>row_id = fresh_id [], cols = data\<rparr>])"
  by (simp add: upsertByAwb_def listShiprocketTrackings_def createShiprocketTrackings_def Let_def)

lemma POST_sync_empty:
  "awb \<noteq> [] \<Longrightarrow> tr_tracking_data r = Some td \<Longrightarrow>
     col_of (fst (snd (POST_sync awb (Some r) now []))) k
       = sync_upsert_data awb td (tr_raw r) now k"
  by (simp add: POST_sync_def opt_field_def upsertByAwb_empty)

lemma POST_hook_empty:
  "tok \<noteq> [] \<Longrightarrow> wp_awb p = Some a \<Longrightarrow> a \<noteq> [] \<Longrightarrow>
     col_of (fst (snd (POST_hook (Some tok) (Some tok) (Some p) []))) k = hook_upsert_data p k"
  by (simp add: POST_hook_def constantTimeCompare_def str_def upsertByAwb_empty)

text \<open>
  C1 at status code 7. The pull route stores the label \<open>Delivered\<close>. The push route,
  given the same code as a number or as the text \<open>7\<close>, stores the code: the table is
  not applied there.
\<close>

theorem push_stores_code_unmapped:
  "col_of (fst (snd (POST_sync ''AWB1'' (Some delivered_pull) (JDate (JStr ''2026-01-05'')) [])))
       ''current_status'' = Some (JStr ''Delivered'')
   \<and> col_of (fst (snd (POST_hook (Some ''secret'') (Some ''secret'') (Some delivered_push) [])))
       ''current_status'' = Some (JNum 7)
   \<and> col_of (fst (snd (POST_hook (Some ''secret'') (Some ''secret'') (Some delivered_push_text) [])))
       ''current_status'' = Some (JStr ''7'')"
proof -
  have td: "tr_tracking_data delivered_pull = Some (the (tr_tracking_data delivered_pull))"
    by (simp add: delivered_pull_def)
  have cs: "td_current_status (the (tr_tracking_data delivered_pull)) = Some (JNum 7)"
    by (simp add: delivered_pull_def)
  have "(7, ''Delivered'') \<in> set spec_status_table"
    by (simp add: spec_status_table_def)
  from sync_stores_labels(1) [OF this cs] POST_sync_empty [OF _ td]
  have pull: "col_of (fst (snd (POST_sync ''AWB1'' (Some delivered_pull)
                 (JDate (JStr ''2026-01-05'')) []))) ''current_status'' = Some (JStr ''Delivered'')"
    by simp
  have a1: "wp_awb delivered_push = Some ''AWB1''"
    by (simp add: delivered_push_def)
  have a2: "wp_awb delivered_push_text = Some ''AWB1''"
    by (simp add: delivered_push_def delivered_push_text_def)
  have push: "col_of (fst (snd (POST_hook (Some ''secret'') (Some ''secret'')
                 (Some delivered_push) []))) ''current_status'' = Some (JNum 7)"
    using POST_hook_empty [OF _ a1, of "''secret''" "''current_status''"]
    by (simp add: hook_stores_raw delivered_push_def)
  have push_text: "col_of (fst (snd (POST_hook (Some ''secret'') (Some ''secret'')
                 (Some delivered_push_text) []))) ''current_status'' = Some (JStr ''7'')"
    using POST_hook_empty [OF _ a2, of "''secret''" "''current_status''"]
    by (simp add: hook_stores_raw delivered_push_def delivered_push_text_def)
  show ?thesis using pull push push_text by simp
qed

section \<open>Courier selection\<close>









text \<open>A value that parses to zero is falsy, so it counts as 99 as well.\<close>

lemma days_or_99_zero:
  "parseInt e (c_estimated_delivery_days c) = Some 0 \<Longrightarrow> days_or_99 e c = 99"
  by (simp add: days_or_99_def)










lemma sample_answers:
  "get_serviceability sample_env now p d w c m = (Inr three_couriers, m, [Serviceability p d w c])"
  "get_serviceability cheap_env now p d w c m = (Inr three_couriers, m, [Serviceability p d w c])"
  "get_serviceability slow_env now p d w c m = (Inr slow_couriers, m, [Serviceability p d w c])"
  by (simp_all add: get_serviceability_def sample_env_def cheap_env_def slow_env_def)





section \<open>Estimate cache\<close>

lemma show_nat_nonempty: "show_nat n \<noteq> []"
  by (subst show_nat.simps) simp

lemma digit_char_inj:
  "d < 10 \<Longrightarrow> d' < 10 \<Longrightarrow> digit_char d = digit_char d' \<Longrightarrow> d = d'"
  unfolding digit_char_def by (simp split: if_splits) arith

lemma show_nat_inj: "show_nat a = show_nat b \<Longrightarrow> a = b"
proof (induction a arbitrary: b rule: show_nat.induct)
  case (1 a)
  show ?case
  proof (cases "a < 10")
    case small: True
    show ?thesis
    proof (cases "b < 10")
      case True
      then show ?thesis
        using "1.prems" small digit_char_inj [of a b]
        by (simp add: show_nat.simps [of a] show_nat.simps [of b])
    next
      case False
      then show ?thesis
        using "1.prems" small show_nat_nonempty [of "b div 10"]
        by (simp add: show_nat.simps [of a] show_nat.simps [of b] Cons_eq_append_conv)
    qed
  next
    case big: False
    show ?thesis
    proof (cases "b < 10")
      case True
      then show ?thesis
        using "1.prems" big show_nat_nonempty [of "a div 10"]
        by (simp add: show_nat.simps [of a] show_nat.simps [of b] append_eq_Cons_conv)
    next
      case False
      then have "show_nat (a div 10) = show_nat (b div 10)"
          and d: "digit_char (a mod 10) = digit_char (b mod 10)"
        using "1.prems" big
        by (simp_all add: show_nat.simps [of a] show_nat.simps [of b])
      then have "a div 10 = b div 10" using "1.IH" big by simp
      moreover have "a mod 10 = b mod 10"
        using d digit_char_inj [of "a mod 10" "b mod 10"] by simp
      ultimately show ?thesis by (metis div_mult_mod_eq)
    qed
  qed
qed

lemma other_keys_inj:
  "cacheKey e (other_request i) = cacheKey e (other_request j) \<Longrightarrow> i = j"
  using show_nat_inj [of "400000 + i" "400000 + j"]
  by (simp add: cacheKey_def other_request_def)

lemma other_key_not_sample:
  "cacheKey e (other_request i) \<noteq> cacheKey e sample_request"
  by (simp add: cacheKey_def other_request_def sample_request_def)

lemma sample_key_nonempty: "cacheKey e data \<noteq> []"
  by (simp add: cacheKey_def)

lemma full_cache_length: "length full_cache = maxCacheSize"
  by (simp add: full_cache_def maxCacheSize_def)

lemma full_cache_distinct: "distinct (map fst full_cache)"
proof -
  have "inj_on (\<lambda>i. cacheKey sample_env (other_request i)) (set [0..<999])"
    by (rule inj_onI) (rule other_keys_inj)
  then have "distinct (map (\<lambda>i. cacheKey sample_env (other_request i)) [0..<999])"
    by (simp add: distinct_map)
  moreover have "cacheKey sample_env sample_request
      \<notin> set (map (\<lambda>i. cacheKey sample_env (other_request i)) [0..<999])"
  proof
    assume "cacheKey sample_env sample_request
      \<in> set (map (\<lambda>i. cacheKey sample_env (other_request i)) [0..<999])"
    then obtain i where "cacheKey sample_env (other_request i) = cacheKey sample_env sample_request"
      unfolding set_map by (elim imageE) simp
    then show False using other_key_not_sample by blast
  qed
  ultimately show ?thesis
    by (simp add: full_cache_def comp_def del: upt_Suc)
qed

lemma full_cache_holds_sample:
  "map_of full_cache (cacheKey sample_env sample_request) = Some sample_entry"
  by (simp add: full_cache_def del: upt_Suc)

lemma evict_full_cache:
  "evict full_cache = map (\<lambda>i. (cacheKey sample_env (other_request i), sample_entry)) [0..<999]"
  using full_cache_length sample_key_nonempty [of sample_env sample_request]
  by (simp add: evict_def full_cache_def del: upt_Suc)

lemma evicted_sample_key:
  "map_of (evict full_cache) (cacheKey sample_env sample_request) = None"
proof -
  have "cacheKey sample_env sample_request
      \<notin> fst ` set (map (\<lambda>i. (cacheKey sample_env (other_request i), sample_entry)) [0..<999])"
  proof
    assume "cacheKey sample_env sample_request
      \<in> fst ` set (map (\<lambda>i. (cacheKey sample_env (other_request i), sample_entry)) [0..<999])"
    then obtain i where "cacheKey sample_env (other_request i) = cacheKey sample_env sample_request"
      unfolding set_map image_image by (elim imageE) simp
    then show False using other_key_not_sample by blast
  qed
  then show ?thesis
    unfolding evict_full_cache map_of_eq_None_iff .
qed

text \<open>
  With a valid token: a key the cache does not hold after the eviction step, or holds
  expired, costs the calls of one serviceability request; a key it holds fresh costs none.
\<close>

lemma get_serviceability_calls:
  "\<exists>rest. snd (snd (get_serviceability e now p d w c m)) = Serviceability p d w c # rest"
  by (simp add: get_serviceability_def split: sum.splits exn.splits prod.splits)

lemma getDeliveryEstimate_miss_calls:
  assumes "isTokenValid now m"
    and "map_of (evict (deliveryEstimateCache m)) (cacheKey e data) = None"
  shows "snd (snd (getDeliveryEstimate e now data m)) =
           snd (snd (get_serviceability e now (pickup_postcode data) (delivery_postcode data)
              (num_or (weight data) (1 / 2)) (num_or (cod data) 0)
              (m\<lparr>deliveryEstimateCache := evict (deliveryEstimateCache m)\<rparr>)))"
  using assms
  by (simp add: getDeliveryEstimate_def ensureToken_def fresh_entry_def Let_def
      split: prod.splits sum.splits exn.splits option.splits)

lemma getDeliveryEstimate_expired_calls:
  assumes "isTokenValid now m"
    and "map_of (evict (deliveryEstimateCache m)) (cacheKey e data) = Some c"
    and "\<not> now < expiresAt c"
  shows "snd (snd (getDeliveryEstimate e now data m)) =
           snd (snd (get_serviceability e now (pickup_postcode data) (delivery_postcode data)
              (num_or (weight data) (1 / 2)) (num_or (cod data) 0)
              (m\<lparr>deliveryEstimateCache := evict (deliveryEstimateCache m)\<rparr>)))"
  using assms
  by (simp add: getDeliveryEstimate_def ensureToken_def fresh_entry_def Let_def
      split: prod.splits sum.splits exn.splits option.splits)

lemma getDeliveryEstimate_hit:
  assumes "isTokenValid now m"
    and "map_of (evict (deliveryEstimateCache m)) (cacheKey e data) = Some c"
    and "now < expiresAt c"
  shows "getDeliveryEstimate e now data m =
           (Inr (response c), m\<lparr>deliveryEstimateCache := evict (deliveryEstimateCache m)\<rparr>, [])"
  using assms
  by (simp add: getDeliveryEstimate_def ensureToken_def fresh_entry_def Let_def)

text \<open>
  C4 at a full cache. The manager holds 1000 entries, the token is valid, and the sample
  request's entry, the oldest, is fresh. The call deletes that entry before it looks the key
  up, so it issues a new serviceability request.
\<close>

theorem full_cache_refetches_cached_key:
  "length (deliveryEstimateCache full_manager) = maxCacheSize
   \<and> distinct (map fst (deliveryEstimateCache full_manager))
   \<and> isTokenValid 1000 full_manager
   \<and> map_of (deliveryEstimateCache full_manager) (cacheKey sample_env sample_request)
       = Some sample_entry
   \<and> 1000 < expiresAt sample_entry
   \<and> snd (snd (getDeliveryEstimate sample_env 1000 sample_request full_manager))
       = [Serviceability ''110001'' ''560001'' (1 / 2) 0]"
proof -
  have valid: "isTokenValid 1000 full_manager"
    by (simp add: isTokenValid_def full_manager_def TOKEN_REFRESH_BUFFER_DAYS_def)
  have fresh: "1000 < expiresAt sample_entry"
    by (simp add: sample_entry_def DELIVERY_ESTIMATE_CACHE_HOURS_def)
  have cache: "deliveryEstimateCache full_manager = full_cache"
    by (simp add: full_manager_def)
  have "snd (snd (getDeliveryEstimate sample_env 1000 sample_request full_manager))
       = [Serviceability (pickup_postcode sample_request) (delivery_postcode sample_request)
              (num_or (weight sample_request) (1 / 2)) (num_or (cod sample_request) 0)]"
    using getDeliveryEstimate_miss_calls [OF valid, of sample_env sample_request]
      evicted_sample_key cache by (simp add: sample_answers)
  then have calls: "snd (snd (getDeliveryEstimate sample_env 1000 sample_request full_manager))
       = [Serviceability ''110001'' ''560001'' (1 / 2) 0]"
    by (simp add: sample_request_def num_or_def)
  show ?thesis
    using valid fresh calls full_cache_length full_cache_distinct full_cache_holds_sample cache
    by simp
qed

text \<open>
  C10. A call that omits the weight and the COD flag, or passes weight 0, and a call that
  passes weight 0.5 and COD 0 form the same cache key and have the same outcome: result,
  manager afterwards and calls made.
\<close>

theorem getDeliveryEstimate_defaults:
  "getDeliveryEstimate e now (data\<lparr>weight := None, cod := None\<rparr>) m
     = getDeliveryEstimate e now (data\<lparr>weight := Some (1 / 2), cod := Some 0\<rparr>) m
   \<and> cacheKey e (data\<lparr>weight := None, cod := None\<rparr>)
     = cacheKey e (data\<lparr>weight := Some (1 / 2), cod := Some 0\<rparr>)
   \<and> getDeliveryEstimate e now (data\<lparr>weight := Some 0, cod := None\<rparr>) m
     = getDeliveryEstimate e now (data\<lparr>weight := Some (1 / 2), cod := Some 0\<rparr>) m"
proof -
  have w: "num_or None (1 / 2) = 1 / 2" "num_or (Some (1 / 2)) (1 / 2) = 1 / 2"
    "num_or (Some 0) (1 / 2) = 1 / 2" "num_or None 0 = 0" "num_or (Some 0) 0 = 0"
    by (simp_all add: num_or_def)
  have k: "cacheKey e (data\<lparr>weight := None, cod := None\<rparr>)
     = cacheKey e (data\<lparr>weight := Some (1 / 2), cod := Some 0\<rparr>)"
    "cacheKey e (data\<lparr>weight := Some 0, cod := None\<rparr>)
     = cacheKey e (data\<lparr>weight := Some (1 / 2), cod := Some 0\<rparr>)"
    by (simp_all add: cacheKey_def w)
  obtain r m1 calls where et: "ensureToken e now m = (r, m1, calls)"
    by (cases "ensureToken e now m") auto
  show ?thesis
  proof (cases r)
    case (Inl err)
    then show ?thesis using et k by (simp add: getDeliveryEstimate_def)
  next
    case (Inr u)
    then show ?thesis using et k
      by (simp add: getDeliveryEstimate_def w
          cong: prod.case_cong sum.case_cong exn.case_cong option.case_cong)
  qed
qed

section \<open>Cancellation\<close>

lemma handleError_typed: "\<exists>t msg. handleError error operation = MedusaError t msg"
  by (simp add: handleError_def Let_def)

text \<open>
  C7, as the client has it. For a rejection that carries response data: when the
  lower-cased JSON text of the data contains \<open>already cancelled\<close> or
  \<open>already canceled\<close>, whatever the HTTP status, or contains \<open>cannot cancel\<close> and the
  HTTP status is 400, \<open>cancel\<close> returns normally; otherwise it throws the typed error of
  \<open>handleError\<close>.
\<close>

theorem cancel_outcomes:
  assumes "ae_data_json (as_axios error) = Some json"
  shows "((str_includes (to_lower json) ''already cancelled''
             \<or> str_includes (to_lower json) ''already canceled''
             \<or> (ae_status (as_axios error) = Some 400
                  \<and> str_includes (to_lower json) ''cannot cancel''))
            \<longrightarrow> cancel (Inl error) orderId = Inr ())
       \<and> (\<not> (str_includes (to_lower json) ''already cancelled''
             \<or> str_includes (to_lower json) ''already canceled''
             \<or> (ae_status (as_axios error) = Some 400
                  \<and> str_includes (to_lower json) ''cannot cancel''))
            \<longrightarrow> (\<exists>t msg. cancel (Inl error) orderId = Inl (MedusaError t msg)))"
  using assms handleError_typed [of error "Some ''cancel''"]
  by (auto simp: cancel_def Let_def)

lemma rejection_fields:
  "ae_data_json (as_axios (rejection code msg)) = Some (message_json msg)"
  "ae_status (as_axios (rejection code msg)) = Some code"
  by (simp_all add: rejection_def)

lemma cancel_400_cannot:
  "cancel (Inl (rejection 400 ''Cannot cancel order'')) ''16178831'' = Inr ()"
  by (simp add: cancel_def rejection_def message_json_def to_lower_def lower_table_def Let_def)

lemma cancel_500_already:
  "cancel (Inl (rejection 500 ''Order already cancelled'')) ''16178831'' = Inr ()"
  by (simp add: cancel_def rejection_def message_json_def to_lower_def lower_table_def Let_def)

lemma cancel_404_other:
  "cancel (Inl (rejection 404 ''Order not found'')) ''16178831''
     = Inl (MedusaError NOT_FOUND ''[cancel] Order not found'')"
  by (simp add: cancel_def rejection_def message_json_def to_lower_def lower_table_def Let_def
      handleError_def str_or_def)

theorem cancel_outcomes_witness:
  "ae_data_json (as_axios (rejection 400 ''Cannot cancel order''))
     = Some (message_json ''Cannot cancel order'')
   \<and> cancel (Inl (rejection 400 ''Cannot cancel order'')) ''16178831'' = Inr ()
   \<and> cancel (Inl (rejection 500 ''Order already cancelled'')) ''16178831'' = Inr ()
   \<and> cancel (Inl (rejection 404 ''Order not found'')) ''16178831''
       = Inl (MedusaError NOT_FOUND ''[cancel] Order not found'')"
proof -
  have j: "ae_data_json (as_axios (rejection 400 ''Cannot cancel order''))
             = Some (message_json ''Cannot cancel order'')"
    by (rule rejection_fields)
  have c: "str_includes (to_lower (message_json ''Cannot cancel order'')) ''cannot cancel''"
    by (simp add: message_json_def to_lower_def lower_table_def)
  have "cancel (Inl (rejection 400 ''Cannot cancel order'')) ''16178831'' = Inr ()"
    using cancel_outcomes [OF j, of "''16178831''"] c by (simp add: rejection_fields)
  then show ?thesis
    using j cancel_500_already cancel_404_other by simp
qed

text \<open>
  The claim as stated accepts a \<open>cannot cancel\<close> rejection under any HTTP status. Under
  status 422 the same rejection is thrown as an error.
\<close>

theorem cancel_422_counterexample:
  "str_includes (to_lower (message_json ''Cannot cancel order'')) ''cannot cancel''
   \<and> cancel (Inl (rejection 422 ''Cannot cancel order'')) ''16178831''
       = Inl (MedusaError INVALID_DATA ''[cancel] Cannot cancel order'')"
  by (simp add: cancel_def rejection_def message_json_def to_lower_def lower_table_def Let_def
      handleError_def str_or_def)

text \<open>
  A failure without response data (a timeout, a disposed client) does not reach
  \<open>handleError\<close>: the catch block itself throws.
\<close>

lemma cancel_without_response:
  "cancel (Inl (AxiosError (plain_error ''timeout of 15000ms exceeded''))) ''16178831''
     = Inl (TypeError ''Cannot read properties of undefined (reading toLowerCase)'')"
  by (simp add: cancel_def plain_error_def)

section \<open>Ownership check of the public tracking route\<close>

text \<open>
  C9, as the route has it. For a record linked to a host order: the route answers 403 and
  returns no tracking data when the order has a customer id that differs from the
  requester's, and when the lookup throws an error whose lower-cased message does not
  contain \<open>not found\<close>. It returns the tracking data when the error message contains
  \<open>not found\<close>, and when the order has no customer id.
\<close>

theorem GET_tracking_denied:
  assumes "awb \<noteq> []" and "findByAwb awb st = Some t"
    and "truthy (cols t ''medusa_order_id'')" and "cols t ''medusa_order_id'' = Some oid"
  shows "(\<forall>order. retrieveOrder oid = Inr order \<and> truthy (str (customer_id order))
              \<and> customer_id order \<noteq> actorId
            \<longrightarrow> GET_tracking retrieveOrder actorId awb st = (403, None))
       \<and> (\<forall>msg. retrieveOrder oid = Inl (Some msg) \<and> \<not> str_includes (to_lower msg) ''not found''
            \<longrightarrow> GET_tracking retrieveOrder actorId awb st = (403, None))
       \<and> (\<forall>msg. retrieveOrder oid = Inl (Some msg) \<and> str_includes (to_lower msg) ''not found''
            \<longrightarrow> GET_tracking retrieveOrder actorId awb st = (200, Some t))
       \<and> (\<forall>order. retrieveOrder oid = Inr order \<and> \<not> truthy (str (customer_id order))
            \<longrightarrow> GET_tracking retrieveOrder actorId awb st = (200, Some t))"
  using assms by (simp add: GET_tracking_def)

lemma linked_found: "findByAwb ''AWB1'' [linked_row] = Some linked_row"
  by (simp add: findByAwb_def listShiprocketTrackings_def linked_row_def obj_Cons)

lemma linked_order: "cols linked_row ''medusa_order_id'' = Some (JStr ''order_01'')"
  by (simp add: linked_row_def obj_Cons)

lemma lower_msgs:
  "to_lower ''Order with id: order_01 was not found'' = ''order with id: order_01 was not found''"
  "to_lower ''connection refused'' = ''connection refused''"
  by (simp_all add: to_lower_def lower_table_def)

text \<open>
  The claim as stated denies access on any error raised while verifying. An order lookup
  that fails with a \<open>not found\<close> message lets the requester read the tracking data.
\<close>

theorem GET_tracking_not_found_counterexample:
  "findByAwb ''AWB1'' [linked_row] = Some linked_row
   \<and> cols linked_row ''medusa_order_id'' = Some (JStr ''order_01'')
   \<and> order_lookup_not_found (JStr ''order_01'') = Inl (Some ''Order with id: order_01 was not found'')
   \<and> GET_tracking order_lookup_not_found (Some ''cus_bob'') ''AWB1'' [linked_row]
       = (200, Some linked_row)"
  by (simp add: GET_tracking_def linked_found linked_order order_lookup_not_found_def lower_msgs)

theorem GET_tracking_denied_witness:
  "''AWB1'' \<noteq> [] \<and> findByAwb ''AWB1'' [linked_row] = Some linked_row
   \<and> truthy (cols linked_row ''medusa_order_id'')
   \<and> cols linked_row ''medusa_order_id'' = Some (JStr ''order_01'')
   \<and> GET_tracking order_of_alice (Some ''cus_bob'') ''AWB1'' [linked_row] = (403, None)
   \<and> GET_tracking order_lookup_down (Some ''cus_bob'') ''AWB1'' [linked_row] = (403, None)
   \<and> GET_tracking order_of_alice (Some ''cus_alice'') ''AWB1'' [linked_row] = (200, Some linked_row)"
proof -
  have a: "''AWB1'' \<noteq> []" by simp
  have t: "truthy (cols linked_row ''medusa_order_id'')" by (simp add: linked_order)
  note th = GET_tracking_denied [OF a linked_found t linked_order]
  have r1: "GET_tracking order_of_alice (Some ''cus_bob'') ''AWB1'' [linked_row] = (403, None)"
    using th [of order_of_alice "Some ''cus_bob''"] by (simp add: order_of_alice_def str_def)
  have r2: "GET_tracking order_lookup_down (Some ''cus_bob'') ''AWB1'' [linked_row] = (403, None)"
    using th [of order_lookup_down "Some ''cus_bob''"]
    by (simp add: order_lookup_down_def lower_msgs)
  have r3: "GET_tracking order_of_alice (Some ''cus_alice'') ''AWB1'' [linked_row]
            = (200, Some linked_row)"
    by (simp add: GET_tracking_def linked_found linked_order order_of_alice_def str_def)
  show ?thesis using a linked_found t linked_order r1 r2 r3 by simp
qed

section \<open>Rounding to a double\<close>

lemma pow2_powi: "pow2 e = 2 powi e"
  by (simp add: pow2_def power_int_def field_simps)

lemma pow2_pos: "0 < pow2 e"
  by (simp add: pow2_powi)

lemma pow2_le_exponent:
  assumes "0 < a"
  shows "pow2 (exponent_of a) \<le> a"
proof -
  obtain p q where pq: "quotient_of a = (p, q)" by (cases "quotient_of a")
  have q: "0 < q" using pq by (rule quotient_of_denom_pos)
  have a: "a = of_int p / of_int q" using pq by (rule quotient_of_div)
  have p: "0 < p" using assms q a by (simp add: zero_less_divide_iff)
  have bp: "(2::rat) ^ nat (bitlen p - 1) \<le> of_int p"
    using bitlen_bounds [OF p] by (metis of_int_le_iff of_int_numeral of_int_power)
  have bq: "of_int q \<le> (2::rat) ^ nat (bitlen q)"
    using bitlen_bounds [OF q] by (metis less_imp_le of_int_le_iff of_int_numeral of_int_power)
  have bp1: "0 \<le> bitlen p - 1" using p by (auto simp: bitlen_alt_def)
  have "pow2 (bitlen p - bitlen q - 1) = 2 powi ((bitlen p - 1) - bitlen q)"
    by (simp add: pow2_powi algebra_simps)
  also have "\<dots> = 2 powi (bitlen p - 1) / 2 powi (bitlen q)"
    by (rule power_int_diff) simp
  also have "\<dots> = 2 ^ nat (bitlen p - 1) / 2 ^ nat (bitlen q)"
    using bp1 bitlen_nonneg [of q] by (simp add: power_int_def)
  also have "\<dots> \<le> of_int p / of_int q"
    using bp bq q p by (intro frac_le) simp_all
  finally have low: "pow2 (bitlen p - bitlen q - 1) \<le> a" using a by simp
  show ?thesis
    using low by (simp add: exponent_of_def pq Let_def)
qed

lemma round_half_even_ge: "\<lfloor>n\<rfloor> \<le> round_half_even n"
  by (simp add: round_half_even_def Let_def)

text \<open>Rounding keeps 53 significant bits, so only zero rounds to zero.\<close>

lemma round_double_eq_0_iff: "round_double x = 0 \<longleftrightarrow> x = 0"
proof (cases "x = 0")
  case True
  then show ?thesis by (simp add: round_double_def)
next
  case False
  let ?e = "exponent_of \<bar>x\<bar>"
  let ?q = "pow2 (?e - 52)"
  have "pow2 ?e \<le> \<bar>x\<bar>" using False by (intro pow2_le_exponent) simp
  moreover have "pow2 ?e = 2 ^ 52 * ?q"
    using power_int_diff [of "2::rat" ?e 52] by (simp add: pow2_powi)
  ultimately have "2 ^ 52 \<le> \<bar>x\<bar> / ?q"
    using pow2_pos [of "?e - 52"] by (simp add: pos_le_divide_eq)
  then have "(1::int) \<le> \<lfloor>\<bar>x\<bar> / ?q\<rfloor>"
    by (simp add: le_floor_iff)
  then have "0 < round_half_even (\<bar>x\<bar> / ?q)"
    using round_half_even_ge [of "\<bar>x\<bar> / ?q"] by arith
  then show ?thesis
    using False pow2_pos [of "?e - 52"] by (simp add: round_double_def Let_def sgn_if)
qed

lemma round_double_samples:
  "round_double (1 / 2) = 1 / 2" "round_double 2 = 2" "round_double 8 = 8"
  by code_simp+

text \<open>
  \<open>0.1 + 0.2\<close> is \<open>0.30000000000000004\<close>, not the double \<open>0.3\<close>; \<open>0.2 + 0.6\<close> is the
  double \<open>0.8\<close>.
\<close>

lemma double_tenths:
  "fadd (fdiv 100 1000) (fdiv 200 1000) = 1351079888211149 / 4503599627370496"
  "fdiv 300 1000 = 5404319552844595 / 18014398509481984"
  by code_simp+

lemma double_sums:
  "fadd (fadd 0 (fmul (fdiv 200 1000) 1)) (fmul (fdiv 300 1000) 2) = fdiv 800 1000"
  "fadd (fadd 0 (fmul 2 1)) (fmul 3 2) = 8"
  by code_simp+

section \<open>Validation and totals of shipment creation\<close>












lemma bind_exn_Inr: "bind_exn r f = Inr y \<longleftrightarrow> (\<exists>v. r = Inr v \<and> f v = Inr y)"
  by (cases r) (auto simp: bind_exn_def)

lemma bind_exn_simps:
  "bind_exn (Inr v) f = f v" "bind_exn (Inl e) f = Inl e"
  by (simp_all add: bind_exn_def)

lemma calculate_totals_step:
  assumes "calculate_totals m (item # items) t = Inr t'"
  shows "calculate_totals m items
           \<lparr>totalWeight =
              fadd (totalWeight t) (fmul (fdiv (item_grams m item) 1000) (quantity_of item)),
            totalLength = max (totalLength t) (item_length m item),
            totalBreadth = max (totalBreadth t) (item_width m item),
            totalHeight = fadd (totalHeight t) (fmul (item_height m item) (quantity_of item))\<rparr>
         = Inr t'"
  using assms
  by (auto simp: item_grams_def item_length_def item_width_def item_height_def item_variant_def
      opt_field_def weight_kg_def split: option.splits if_splits)

lemma calculate_totals_result:
  assumes "calculate_totals m items t = Inr t'"
  shows "totalWeight t'
           = fold (\<lambda>item w. fadd w (fmul (fdiv (item_grams m item) 1000) (quantity_of item)))
               items (totalWeight t)
       \<and> totalHeight t'
           = fold (\<lambda>item h. fadd h (fmul (item_height m item) (quantity_of item)))
               items (totalHeight t)
       \<and> totalLength t' = fold max (map (item_length m) items) (totalLength t)
       \<and> totalBreadth t' = fold max (map (item_width m) items) (totalBreadth t)"
  using assms
proof (induction items arbitrary: t)
  case Nil
  then show ?case by simp
next
  case (Cons item items)
  from Cons.IH [OF calculate_totals_step [OF Cons.prems]]
  show ?case by (simp add: max.commute)
qed

lemma build_order_data_totals:
  assumes "build_order_data pl da items order now orderDate = Inr od"
  shows "\<exists>t. calculate_totals (orderItemMap order) items no_totals = Inr t
           \<and> od_weight od = totalWeight t \<and> od_length od = totalLength t
           \<and> od_breadth od = totalBreadth t \<and> od_height od = totalHeight t"
  using assms
  by (auto simp: build_order_data_def Let_def bind_exn_Inr)

lemma create_sends_order_first:
  assumes "build_order_data pl da items order now orderDate = Inr od"
  shows "\<exists>res rest. create net pl da items order now orderDate = (res, CreateOrder od # rest)"
  using assms
  by (simp add: create_def Let_def split: sum.splits option.splits)

text \<open>
  The payload of a call that passes the validation. It is the first request \<open>create\<close>
  sends, and in it: weight is the sum, in the order of the items and in double arithmetic,
  of grams / 1000 times quantity; height is the like sum of item height times quantity;
  length and breadth are the largest of 0 and the items' lengths, respectively widths. The
  quantity of an item is \<open>quantity_of\<close>: its quantity, else its raw quantity, else 1.
\<close>

lemma create_payload_totals:
  assumes "build_order_data pickup_location delivery_address items order now orderDate = Inr od"
  shows "od_weight od
           = fold (\<lambda>item w. fadd w (fmul (fdiv (item_grams (orderItemMap order) item) 1000)
                                        (quantity_of item))) items 0
       \<and> od_height od
           = fold (\<lambda>item h. fadd h (fmul (item_height (orderItemMap order) item)
                                        (quantity_of item))) items 0
       \<and> od_length od = Max (set (0 # map (item_length (orderItemMap order)) items))
       \<and> od_breadth od = Max (set (0 # map (item_width (orderItemMap order)) items))
       \<and> (\<exists>res rest. create net pickup_location delivery_address items order now orderDate
                        = (res, CreateOrder od # rest))"
proof -
  from build_order_data_totals [OF assms] obtain t where
    t: "calculate_totals (orderItemMap order) items no_totals = Inr t"
    and od: "od_weight od = totalWeight t" "od_length od = totalLength t"
      "od_breadth od = totalBreadth t" "od_height od = totalHeight t"
    by blast
  from calculate_totals_result [OF t] od
  have w: "od_weight od
           = fold (\<lambda>item w. fadd w (fmul (fdiv (item_grams (orderItemMap order) item) 1000)
                                        (quantity_of item))) items 0"
    and h: "od_height od
           = fold (\<lambda>item h. fadd h (fmul (item_height (orderItemMap order) item)
                                        (quantity_of item))) items 0"
    and l: "od_length od = fold max (map (item_length (orderItemMap order)) items) 0"
    and b: "od_breadth od = fold max (map (item_width (orderItemMap order)) items) 0"
    by (simp_all add: no_totals_def)
  have l': "od_length od = Max (set (0 # map (item_length (orderItemMap order)) items))"
    using l by (simp only: Max.set_eq_fold)
  have b': "od_breadth od = Max (set (0 # map (item_width (orderItemMap order)) items))"
    using b by (simp only: Max.set_eq_fold)
  show ?thesis
    using w h l' b' create_sends_order_first [OF assms, of net] by blast
qed

text \<open>
  With an item whose length is not negative, the payload's length is the largest of the
  items' lengths; likewise the breadth.
\<close>

lemma Max_with_zero:
  fixes xs :: "rat list"
  assumes "x \<in> set xs" and "0 \<le> x"
  shows "Max (set (0 # xs)) = Max (set xs)"
proof -
  have ne: "set xs \<noteq> {}" using assms(1) by auto
  have "x \<le> Max (set xs)"
    using assms(1) by (intro Max_ge) simp_all
  then have "0 \<le> Max (set xs)"
    using assms(2) by (rule order_trans [rotated])
  moreover have "Max (set (0 # xs)) = max 0 (Max (set xs))"
    using ne by simp
  ultimately show ?thesis by simp
qed

lemma create_payload_maxima:
  assumes "build_order_data pickup_location delivery_address items order now orderDate = Inr od"
    and "a \<in> set items" and "0 \<le> item_length (orderItemMap order) a"
    and "b \<in> set items" and "0 \<le> item_width (orderItemMap order) b"
  shows "od_length od = Max (set (map (item_length (orderItemMap order)) items))
       \<and> od_breadth od = Max (set (map (item_width (orderItemMap order)) items))"
proof -
  have "item_length (orderItemMap order) a \<in> set (map (item_length (orderItemMap order)) items)"
    using assms(2) by simp
  then have l: "Max (set (0 # map (item_length (orderItemMap order)) items))
      = Max (set (map (item_length (orderItemMap order)) items))"
    using assms(3) by (rule Max_with_zero)
  have "item_width (orderItemMap order) b \<in> set (map (item_width (orderItemMap order)) items)"
    using assms(4) by simp
  then have b: "Max (set (0 # map (item_width (orderItemMap order)) items))
      = Max (set (map (item_width (orderItemMap order)) items))"
    using assms(5) by (rule Max_with_zero)
  show ?thesis
    using create_payload_totals [OF assms(1), of sample_carrier] l b by simp
qed

subsection \<open>The sample orders\<close>

lemma sample_map:
  "orderItemMap (mk_order [a, b]) = [oi_id a \<mapsto> a, oi_id b \<mapsto> b]"
  "orderItemMap (mk_order [a]) = [oi_id a \<mapsto> a]"
  by (simp_all add: orderItemMap_def mk_order_def)

lemma show_epoch: "show_int (1767600000000 div 1000) = ''1767600000''"
  by (simp add: show_int_def show_nat.simps digit_char_def)

lemma sample_phone: "validateAndSanitizePhone ''98765 43210'' f = Inr 9876543210"
  by (simp add: validateAndSanitizePhone_def is_digit_def digits_value_def dec_digit_def)

lemma sample_pin: "validateAndSanitizePincode ''560001'' f = Inr 560001"
  by (simp add: validateAndSanitizePincode_def is_digit_def digits_value_def dec_digit_def)

lemma sample_build:
  assumes "calculate_totals (orderItemMap (mk_order lines)) items no_totals = Inr t"
  shows "\<exists>od. build_order_data None None items (mk_order lines) now orderDate = Inr od"
  using assms
  by (simp add: build_order_data_def Let_def bind_exn_simps mk_order_def sample_address_def
      requireField_def or_str_def sample_phone sample_pin)

lemma sample_weight_kg:
  "weight_kg (mk_variant (Some 200) l b h) = fdiv 200 1000"
  "weight_kg (mk_variant (Some 300) l b h) = fdiv 300 1000"
  "weight_kg (mk_variant (Some 500) l b h) = 1 / 2"
  by (simp_all add: weight_kg_def weightGrams_def dimension_def num_or_def mk_variant_def
      fdiv_def round_double_samples)

lemma sample_weight_nonzero:
  "fdiv 200 1000 \<noteq> 0" "fdiv 300 1000 \<noteq> 0"
  by (simp_all add: fdiv_def round_double_eq_0_iff)

text \<open>
  The two items of the specification's example, 200 g once and 300 g twice: the weight is
  the double \<open>0.8\<close>.
\<close>

lemma two_items_totals:
  "calculate_totals (orderItemMap (mk_order two_lines)) two_items no_totals
     = Inr \<lparr>totalWeight = fdiv 800 1000, totalLength = 12, totalBreadth = 8, totalHeight = 8\<rparr>"
  by (simp add: two_lines_def two_items_def sample_map mk_line_def mk_item_def
      no_totals_def sample_weight_kg sample_weight_nonzero double_sums quantity_of_def num_or_def)
     (simp add: mk_variant_def length_of_def breadth_of_def height_of_def
      dimension_def num_or_def opt_field_def double_sums)



lemma negative_totals:
  "calculate_totals (orderItemMap (mk_order lines_negative)) one_item no_totals
     = Inr \<lparr>totalWeight = 1 / 2, totalLength = 0, totalBreadth = 8, totalHeight = 2\<rparr>"
  by (simp add: lines_negative_def one_item_def sample_map mk_line_def mk_item_def
      no_totals_def sample_weight_kg quantity_of_def num_or_def)
     (simp add: mk_variant_def length_of_def breadth_of_def height_of_def
      dimension_def num_or_def opt_field_def fadd_def fmul_def round_double_samples)

lemma sent_dimensions_of_totals:
  assumes "calculate_totals (orderItemMap (mk_order lines)) items no_totals = Inr t"
  shows "sent_dimensions (snd (create net None None items (mk_order lines) now orderDate))
           = Some (totalWeight t, totalLength t, totalBreadth t, totalHeight t)"
proof -
  from sample_build [OF assms] obtain od
    where b: "build_order_data None None items (mk_order lines) now orderDate = Inr od" by blast
  from build_order_data_totals [OF b] assms
  have d: "od_weight od = totalWeight t" "od_length od = totalLength t"
    "od_breadth od = totalBreadth t" "od_height od = totalHeight t" by auto
  from create_sends_order_first [OF b, of net] obtain res rest
    where "create net None None items (mk_order lines) now orderDate = (res, CreateOrder od # rest)"
    by blast
  then show ?thesis using d by simp
qed

lemma two_items_sent:
  "sent_dimensions (snd (create sample_carrier None None two_items (mk_order two_lines)
         1767600000000 ''05-01-2026 10:30'')) = Some (fdiv 800 1000, 12, 8, 8)"
  using sent_dimensions_of_totals [OF two_items_totals, of sample_carrier] by simp


text \<open>
  C6 at a variant whose recorded length is negative. The call has one item: 500 g, length
  -5, width 8, height 2, quantity 1. The item passes the validation, which tests the
  length for zero only, and the order payload \<open>create\<close> sends carries length 0: not the
  item's length, and a dimension the validation is there to exclude.
\<close>

theorem create_negative_length_posts_zero:
  "map (item_length (orderItemMap (mk_order lines_negative))) one_item = [- 5]
   \<and> sent_dimensions (snd (create sample_carrier None None one_item (mk_order lines_negative)
         1767600000000 ''05-01-2026 10:30'')) = Some (1 / 2, 0, 8, 2)"
proof -
  have "map (item_length (orderItemMap (mk_order lines_negative))) one_item = [- 5]"
    by (simp add: lines_negative_def one_item_def sample_map mk_line_def mk_item_def
        mk_variant_def item_length_def item_variant_def opt_field_def length_of_def
        dimension_def num_or_def)
  then show ?thesis
    using sent_dimensions_of_totals [OF negative_totals, of sample_carrier] by simp
qed

section \<open>Refresh coalescing\<close>

lemma coalesced_fresh: "coalesced (fresh_manager v)"
  by (simp add: coalesced_def fresh_manager_def)

lemma coalesced_no_promise_idle:
  "coalesced s \<Longrightarrow> tokenRefreshPromise s = None \<Longrightarrow> in_flight s = []"
  by (cases "in_flight s") (auto simp: coalesced_def)

lemma coalesced_enter:
  assumes "coalesced s"
  shows "coalesced (enter_refreshToken i s)"
proof (cases "tokenRefreshPromise s")
  case None
  have e: "in_flight s = []" using assms None by (rule coalesced_no_promise_idle)
  have no_owner: "\<And>j p. pcs s j \<noteq> AwaitOwner p"
    using assms None by (auto simp: coalesced_def)
  show ?thesis
    using None e no_owner by (auto simp: coalesced_def enter_refreshToken_def)
next
  case (Some p)
  then show ?thesis
    using assms by (auto simp: coalesced_def enter_refreshToken_def)
qed

lemma coalesced_step:
  assumes "coalesced s"
  shows "coalesced (step ev s)"
proof (cases ev)
  case (GetAxios i)
  show ?thesis
  proof (cases "tokenRefreshPromise s")
    case None
    then show ?thesis using GetAxios assms coalesced_enter [OF assms, of i] by simp
  next
    case (Some p)
    then show ?thesis using GetAxios assms by (auto simp: coalesced_def)
  qed
next
  case (ForceRefresh i)
  then show ?thesis using assms coalesced_enter [OF assms, of i] by simp
next
  case (LoginAnswered p ok)
  show ?thesis
  proof (cases "p \<in> set (in_flight s)")
    case False
    then show ?thesis using LoginAnswered assms by simp
  next
    case True
    then have "tokenRefreshPromise s = Some p" using assms by (simp add: coalesced_def)
    moreover have "\<forall>q \<in> set (in_flight s). tokenRefreshPromise s = Some q"
      using assms by (simp add: coalesced_def)
    ultimately have "\<forall>q \<in> set (in_flight s). q = p" by simp
    then have "removeAll p (in_flight s) = []"
      by (induction "in_flight s") (auto simp: filter_empty_conv removeAll_filter_not_eq)
    then have "coalesced (s\<lparr>in_flight := removeAll p (in_flight s),
                  tokenValid := (if ok then True else tokenValid s)\<rparr>)"
      using assms by (simp add: coalesced_def)
    then show ?thesis using LoginAnswered True by simp
  qed
next
  case (Resume i)
  show ?thesis
  proof (cases "pcs s i")
    case Idle
    then show ?thesis using Resume assms by simp
  next
    case (AwaitEnsure p)
    then show ?thesis using Resume assms by (auto simp: coalesced_def)
  next
    case (AwaitRefresh p)
    then show ?thesis using Resume assms by (auto simp: coalesced_def)
  next
    case (AwaitOwner p)
    show ?thesis
    proof (cases "p \<in> set (in_flight s)")
      case True
      then show ?thesis using Resume AwaitOwner assms by simp
    next
      case False
      have slot: "tokenRefreshPromise s = Some p"
        using assms AwaitOwner by (auto simp: coalesced_def)
      have empty: "in_flight s = []"
      proof (cases "in_flight s")
        case Nil
        then show ?thesis .
      next
        case (Cons q qs)
        then have "q = p" using assms slot by (auto simp: coalesced_def)
        then show ?thesis using False Cons by simp
      qed
      have only: "\<And>j q. pcs s j = AwaitOwner q \<Longrightarrow> j = i"
        using assms AwaitOwner unfolding coalesced_def by blast
      have "coalesced (s\<lparr>tokenRefreshPromise := None, pcs := (pcs s)(i := Idle)\<rparr>)"
        using empty only by (auto simp: coalesced_def)
      then show ?thesis using Resume AwaitOwner False by simp
    qed
  qed
next
  case Expire
  then show ?thesis using assms by (auto simp: coalesced_def)
qed

lemma coalesced_fold: "coalesced s \<Longrightarrow> coalesced (fold step evs s)"
  by (induction evs arbitrary: s) (auto simp: coalesced_step)

lemma coalesced_at_most_one: "coalesced s \<Longrightarrow> length (in_flight s) \<le> 1"
proof (cases "in_flight s")
  case Nil
  then show ?thesis by simp
next
  case (Cons p ps)
  assume c: "coalesced s"
  show ?thesis
  proof (cases ps)
    case Nil
    then show ?thesis using Cons by simp
  next
    case (Cons q qs)
    then have "tokenRefreshPromise s = Some p" "tokenRefreshPromise s = Some q" "p \<noteq> q"
      using c \<open>in_flight s = p # ps\<close> by (auto simp: coalesced_def)
    then show ?thesis by simp
  qed
qed


lemma run_expired_callers_aux:
  assumes "tokenRefreshPromise s \<noteq> None" and "\<not> tokenValid s"
  shows "started (fold step (map GetAxios xs) s) = started s
       \<and> in_flight (fold step (map GetAxios xs) s) = in_flight s"
  using assms
proof (induction xs arbitrary: s)
  case Nil
  then show ?case by simp
next
  case (Cons i xs)
  obtain p where p: "tokenRefreshPromise s = Some p" using Cons.prems by auto
  let ?s = "step (GetAxios i) s"
  have "tokenRefreshPromise ?s \<noteq> None" "\<not> tokenValid ?s" "started ?s = started s"
    "in_flight ?s = in_flight s"
    using p Cons.prems by auto
  then show ?case using Cons.IH [of ?s] by simp
qed

text \<open>
  C8. After any sequence of events on a fresh manager, whatever the token state, at most
  one login request is in flight. A caller of \<open>getAxios\<close> or \<open>forceRefreshToken\<close>
  that finds a promise in \<open>tokenRefreshPromise\<close> sends no login request. Any number of
  callers of \<open>getAxios\<close> that arrive, one after the other, at a manager with an expired
  token and before the carrier answers cause one login request.
\<close>

theorem at_most_one_login_in_flight:
  "length (in_flight (run evs (fresh_manager valid))) \<le> 1
   \<and> started (step (GetAxios i) (s\<lparr>tokenRefreshPromise := Some p\<rparr>)) = started s
   \<and> in_flight (step (GetAxios i) (s\<lparr>tokenRefreshPromise := Some p\<rparr>)) = in_flight s
   \<and> started (step (ForceRefresh i) (s\<lparr>tokenRefreshPromise := Some p\<rparr>)) = started s
   \<and> in_flight (step (ForceRefresh i) (s\<lparr>tokenRefreshPromise := Some p\<rparr>)) = in_flight s
   \<and> started (run (map GetAxios [0..<Suc n]) (fresh_manager False)) = 1
   \<and> in_flight (run (map GetAxios [0..<Suc n]) (fresh_manager False)) = [0]"
proof -
  have one: "length (in_flight (run evs (fresh_manager valid))) \<le> 1"
    unfolding run_def
    by (rule coalesced_at_most_one) (rule coalesced_fold, rule coalesced_fresh)
  have same: "started (step (GetAxios i) (s\<lparr>tokenRefreshPromise := Some p\<rparr>)) = started s"
    "in_flight (step (GetAxios i) (s\<lparr>tokenRefreshPromise := Some p\<rparr>)) = in_flight s"
    "started (step (ForceRefresh i) (s\<lparr>tokenRefreshPromise := Some p\<rparr>)) = started s"
    "in_flight (step (ForceRefresh i) (s\<lparr>tokenRefreshPromise := Some p\<rparr>)) = in_flight s"
    by (simp_all add: enter_refreshToken_def)
  let ?s1 = "step (GetAxios 0) (fresh_manager False)"
  have s1: "tokenRefreshPromise ?s1 \<noteq> None" "\<not> tokenValid ?s1" "started ?s1 = 1"
    "in_flight ?s1 = [0]"
    by (simp_all add: fresh_manager_def enter_refreshToken_def)
  have "map GetAxios [0..<Suc n] = GetAxios 0 # map GetAxios [1..<Suc n]"
    by (simp add: upt_conv_Cons del: upt_Suc)
  then have "run (map GetAxios [0..<Suc n]) (fresh_manager False)
           = fold step (map GetAxios [1..<Suc n]) ?s1"
    by (simp add: run_def del: upt_Suc)
  then have many: "started (run (map GetAxios [0..<Suc n]) (fresh_manager False)) = 1"
    "in_flight (run (map GetAxios [0..<Suc n]) (fresh_manager False)) = [0]"
    using run_expired_callers_aux [OF s1(1) s1(2), of "[1..<Suc n]"] s1 by simp_all
  show ?thesis using one same many by simp
qed

end
